theory Spec2Isabelle
  imports Complex_Main "HOL-Library.Sublist" "HOL-Library.AList" "HOL-Library.List_Lexorder"
begin

section \<open>Python values and exceptions\<close>

text \<open>
  The values an attribute of a resource handler can hold, as far as the composite looks
  at them: it tests for list, tuple and dict, and treats everything else alike.
  The other objects are named, in three kinds: \<open>PObj\<close> is one that can be hashed and
  deep-copied (a bound method, an instance of a plain class), \<open>PArr\<close> is an array or
  a table, which cannot be hashed, and \<open>PHandle\<close> is one that cannot be deep-copied
  (an open file, a dataset of an open file, a lock).
\<close>

datatype pyval =
    PNone
  | PInt int
  | PStr string
  | PList "pyval list"
  | PTuple "pyval list"
  | PDict "(pyval \<times> pyval) list"
  | PObj string
  | PArr string
  | PHandle string

text \<open>
  Every raise of the modelled code is a value of this type; a function that can raise
  returns \<open>exn + 'a\<close> with \<open>Inl\<close> for the exception. The errors the source builds
  with a formatted message carry the values the message is formatted from.
  \<open>CastingTypeError\<close> is the TypeError numpy raises when an in-place operation would
  have to store a float result into an integer array, \<open>AxisError\<close> the error it raises
  for an axis an array does not have.
\<close>

datatype exn =
    UnboundLocalError string
  | AttributeError string
  | TypeError
  | CastingTypeError
  | AxisError
  | ValueError
  | IndexError
  | KeyError
  | AssertionError
  | StopIteration
  | ResourceRuntimeError string
  | RuntimeError_attr string pyval pyval
  | RuntimeError_shape "nat list" "nat list"

text \<open>
  Lists, dicts, arrays and tables are not hashable; a tuple is when its elements are.
\<close>

fun hashable :: "pyval \<Rightarrow> bool" where
  "hashable PNone = True"
| "hashable (PInt n) = True"
| "hashable (PStr s) = True"
| "hashable (PList xs) = False"
| "hashable (PTuple xs) = list_all hashable xs"
| "hashable (PDict kvs) = False"
| "hashable (PObj n) = True"
| "hashable (PArr n) = False"
| "hashable (PHandle n) = True"

text \<open>\<open>copy.deepcopy(v)\<close> goes through: no part of \<open>v\<close> refuses to be copied.\<close>

fun copyable :: "pyval \<Rightarrow> bool" where
  "copyable PNone = True"
| "copyable (PInt n) = True"
| "copyable (PStr s) = True"
| "copyable (PList xs) = list_all copyable xs"
| "copyable (PTuple xs) = list_all copyable xs"
| "copyable (PDict kvs) = (list_all copyable (map fst kvs) \<and> list_all copyable (map snd kvs))"
| "copyable (PObj n) = True"
| "copyable (PArr n) = True"
| "copyable (PHandle n) = False"

text \<open>
  \<open>list(set(xs))\<close>: building the set raises TypeError on an unhashable element. The order
  of the result is the set's iteration order, which is the interpreter's and not the
  program's to choose: it enters as a key, an element with a smaller key coming first.
\<close>

definition py_list_set :: "(pyval \<Rightarrow> nat) \<Rightarrow> pyval list \<Rightarrow> exn + pyval list" where
  "py_list_set key xs =
     (if list_all hashable xs then Inr (sort_key key (remdups xs)) else Inl TypeError)"

text \<open>\<open>out.update(other)\<close> on a dict kept in insertion order.\<close>

definition dict_update :: "(pyval \<times> pyval) list \<Rightarrow> (pyval \<times> pyval) list \<Rightarrow> (pyval \<times> pyval) list" where
  "dict_update out other = fold (\<lambda>(k, v). AList.update k v) other out"

definition py_len :: "pyval \<Rightarrow> exn + int" where
  "py_len v = (case v of
      PList xs \<Rightarrow> Inr (int (length xs))
    | PTuple xs \<Rightarrow> Inr (int (length xs))
    | PDict kvs \<Rightarrow> Inr (int (length kvs))
    | PStr s \<Rightarrow> Inr (int (length s))
    | _ \<Rightarrow> Inl TypeError)"

text \<open>\<open>a >= b\<close>: ordered for two integers, a TypeError for every other pair the model has.\<close>

definition py_ge :: "pyval \<Rightarrow> pyval \<Rightarrow> exn + bool" where
  "py_ge a b = (case (a, b) of (PInt x, PInt y) \<Rightarrow> Inr (y \<le> x) | _ \<Rightarrow> Inl TypeError)"

text \<open>\<open>xs[i]\<close> on a list or tuple: a negative index counts from the end.\<close>

definition py_getitem :: "pyval \<Rightarrow> pyval \<Rightarrow> exn + pyval" where
  "py_getitem xs i = (case (xs, i) of
      (PList ys, PInt k) \<Rightarrow>
        (let n = int (length ys); j = (if k < 0 then k + n else k)
         in if 0 \<le> j \<and> j < n then Inr (ys ! nat j) else Inl IndexError)
    | (PTuple ys, PInt k) \<Rightarrow>
        (let n = int (length ys); j = (if k < 0 then k + n else k)
         in if 0 \<le> j \<and> j < n then Inr (ys ! nat j) else Inl IndexError)
    | (PDict kvs, k) \<Rightarrow> (case map_of kvs k of None \<Rightarrow> Inl KeyError | Some v \<Rightarrow> Inr v)
    | _ \<Rightarrow> Inl TypeError)"

definition py_add :: "pyval \<Rightarrow> pyval \<Rightarrow> exn + pyval" where
  "py_add a b = (case (a, b) of
      (PInt x, PInt y) \<Rightarrow> Inr (PInt (x + y))
    | (PList x, PList y) \<Rightarrow> Inr (PList (x @ y))
    | (PTuple x, PTuple y) \<Rightarrow> Inr (PTuple (x @ y))
    | (PStr x, PStr y) \<Rightarrow> Inr (PStr (x @ y))
    | _ \<Rightarrow> Inl TypeError)"

section \<open>Axis selectors, slices and ranges\<close>

text \<open>
  A time or site selector: a \<open>slice(start, stop, step)\<close> whose fields are integers or
  None, a list, an ndarray, or a single integer.
\<close>

datatype selector =
    SSlice "int option" "int option" "int option"
  | SList "int list"
  | SArray "int list"
  | SInt int

text \<open>\<open>slice.indices(length)\<close> of the language: the clamped (start, stop, step).\<close>

definition slice_indices ::
  "int option \<Rightarrow> int option \<Rightarrow> int option \<Rightarrow> int \<Rightarrow> exn + (int \<times> int \<times> int)" where
  "slice_indices start stop step len =
     (if len < 0 then Inl ValueError
      else let st = (case step of None \<Rightarrow> 1 | Some s \<Rightarrow> s) in
        if st = 0 then Inl ValueError
        else let lower = (if st < 0 then -1 else 0);
                 upper = (if st < 0 then len - 1 else len);
                 clamp = (\<lambda>v. if v < 0 then max (v + len) lower else min v upper);
                 a = (case start of None \<Rightarrow> (if st < 0 then upper else lower)
                                  | Some v \<Rightarrow> clamp v);
                 b = (case stop of None \<Rightarrow> (if st < 0 then lower else upper)
                                 | Some v \<Rightarrow> clamp v)
             in Inr (a, b, st))"

text \<open>\<open>list(range(start, stop, step))\<close>.\<close>

definition py_range :: "int \<Rightarrow> int \<Rightarrow> int \<Rightarrow> exn + int list" where
  "py_range start stop step =
     (if step = 0 then Inl ValueError
      else let n = (if 0 < step
                    then (if start < stop then nat ((stop - start - 1) div step + 1) else 0)
                    else (if stop < start then nat ((start - stop - 1) div (- step) + 1) else 0))
           in Inr (map (\<lambda>k. start + int k * step) [0..<n]))"

text \<open>
  An array of shape (time, sites) is kept by site: one time series per site, a missing
  value (NaN) being \<open>None\<close>. A table (DataFrame) built on it has one column per site.
\<close>

type_synonym series = "real option list"

text \<open>\<open>xs[i]\<close> on a sequence of length \<open>n\<close>: a negative index counts from the end.\<close>

definition wrap_index :: "nat \<Rightarrow> int \<Rightarrow> exn + nat" where
  "wrap_index n i =
     (let j = (if i < 0 then i + int n else i)
      in if 0 \<le> j \<and> j < int n then Inr (nat j) else Inl IndexError)"

section \<open>temporal\_stats.py: the gid index of a partition\<close>

text \<open>
  \<open>TemporalStats._create_index\<close>. The first test is \<open>isinstance(sites_slice, slice) and
  sites_slice.stop\<close>: a stop of None or 0 is falsy. \<open>idx\<close> is bound in two branches only;
  the final \<open>return idx\<close> raises UnboundLocalError when neither was taken.
\<close>

fun create_index :: "selector \<Rightarrow> exn + int list" where
  "create_index (SSlice start stop step) =
     (case stop of
        None \<Rightarrow> Inl (UnboundLocalError ''idx'')
      | Some n \<Rightarrow>
          if n \<noteq> 0
          then (case slice_indices start stop step n of
                  Inl e \<Rightarrow> Inl e
                | Inr (a, b, st) \<Rightarrow> py_range a b st)
          else Inl (UnboundLocalError ''idx''))"
| "create_index (SList xs) = Inr xs"
| "create_index (SArray xs) = Inr xs"
| "create_index (SInt n) = Inl (UnboundLocalError ''idx'')"

section \<open>temporal\_stats.py: the weighted circular mean\<close>

text \<open>
  An ndarray as far as the control flow of \<open>weighted_circular_mean\<close> depends on it: its
  shape and whether its dtype is an integer or a floating-point one. The values are of
  a type \<open>'v\<close> left open, and the floating-point operations on them are parameters:
  \<open>exp_vals\<close> is \<open>np.exp\<close>, \<open>div_by_sum\<close> is the division by \<open>np.sum\<close>, and
  \<open>circular_vals\<close> gives the values that the function computes from \<open>np.radians\<close> to
  the final \<open>mean[mask] += 360\<close>, from the values of the data and of the weights (None
  for the scalar weight 1), the \<open>degrees\<close> flag and the axis.
\<close>

datatype dtype = DInt | DFloat

record 'v ndarray =
  shape :: "nat list"
  dtype :: dtype
  vals :: 'v

record 'v float_ops =
  exp_vals :: "'v \<Rightarrow> 'v"
  div_by_sum :: "'v \<Rightarrow> 'v"
  circular_vals :: "'v \<Rightarrow> 'v option \<Rightarrow> bool \<Rightarrow> nat \<Rightarrow> 'v"

text \<open>\<open>np.exp(w)\<close> gives a new floating-point array of the same shape.\<close>

definition np_exp :: "'v float_ops \<Rightarrow> 'v ndarray \<Rightarrow> 'v ndarray" where
  "np_exp ops w = w\<lparr>dtype := DFloat, vals := exp_vals ops (vals w)\<rparr>"

text \<open>
  \<open>w /= np.sum(w)\<close> divides in place: the quotient is floating point, and numpy refuses
  to store it into an integer array.
\<close>

definition np_idiv_sum :: "'v float_ops \<Rightarrow> 'v ndarray \<Rightarrow> exn + 'v ndarray" where
  "np_idiv_sum ops w =
     (case dtype w of
        DInt \<Rightarrow> Inl CastingTypeError
      | DFloat \<Rightarrow> Inr (w\<lparr>vals := div_by_sum ops (vals w)\<rparr>))"

text \<open>
  The function from \<open>if degrees:\<close> on. \<open>np.radians\<close>, \<open>np.sin\<close>, \<open>np.cos\<close> and the product
  with the weights keep the shape of the data; \<open>np.nanmean(..., axis=axis)\<close> raises for
  an axis the data does not have and otherwise removes that axis. When no axis is left
  (the data was one-dimensional) the mean is a numpy scalar and not an array, and so are
  \<open>np.arctan2\<close> and \<open>np.degrees\<close> of it; a scalar takes no item assignment, so with
  \<open>degrees\<close> the statement \<open>mean[mask] += 360\<close> raises TypeError on it.
\<close>

definition circular_mean ::
  "'v float_ops \<Rightarrow> 'v ndarray \<Rightarrow> 'v ndarray option \<Rightarrow> bool \<Rightarrow> int \<Rightarrow> exn + 'v ndarray" where
  "circular_mean ops data weights degrees axis =
     (case wrap_index (length (shape data)) axis of
        Inl e \<Rightarrow> Inl AxisError
      | Inr k \<Rightarrow>
          (let mean_shape = take k (shape data) @ drop (Suc k) (shape data) in
           if degrees \<and> mean_shape = [] then Inl TypeError
           else Inr \<lparr> shape = mean_shape, dtype = DFloat,
                       vals = circular_vals ops (vals data) (map_option vals weights) degrees k \<rparr>))"

definition weighted_circular_mean ::
  "'v float_ops \<Rightarrow> 'v ndarray \<Rightarrow> 'v ndarray option \<Rightarrow> bool \<Rightarrow> int \<Rightarrow> bool \<Rightarrow> bool
     \<Rightarrow> exn + 'v ndarray" where
  "weighted_circular_mean ops data weights degrees axis norm_weights exponential_weights =
     (case weights of
        None \<Rightarrow> circular_mean ops data None degrees axis
      | Some w \<Rightarrow>
          if shape data \<noteq> shape w
          then (let w1 = (if exponential_weights then np_exp ops w else w) in
                case (if norm_weights then np_idiv_sum ops w1 else Inr w1) of
                  Inl e \<Rightarrow> Inl e
                | Inr w2 \<Rightarrow> Inl (RuntimeError_shape (shape w2) (shape data)))
          else circular_mean ops data (Some w) degrees axis)"

text \<open>
  The operations on arrays whose values are left out: what remains of an array is its
  shape and dtype.
\<close>

definition shape_only :: "unit float_ops" where
  "shape_only =
     \<lparr> exp_vals = (\<lambda>v. v), div_by_sum = (\<lambda>v. v), circular_vals = (\<lambda>d w deg k. ()) \<rparr>"

section \<open>temporal\_stats.py: statistics per temporal group\<close>

text \<open>
  A timestamp of the time index, a table with its index and one column per site, and
  what \<open>_compute_stats\<close> works on: the table itself, or the table grouped (a group's
  name and its rows, in the order of the names). A group's name is a scalar when one
  key array groups the rows, a tuple when two do (later pandas versions name the
  groups of a one-element key list by 1-tuples; the formatted names are the same, and
  neither a scalar nor a tuple is an index of an empty list).
\<close>

record stamp =
  ts_year :: int
  ts_month :: int
  ts_day :: int
  ts_hour :: int

record frame =
  f_index :: "stamp list"
  f_cols :: "series list"

datatype grp_name = GScalar int | GTuple "int list"

datatype res_data = Plain frame | Grouped "(grp_name \<times> frame) list"

text \<open>
  A statistic: its function and its kwargs, the \<open>weights\<close> entry apart from the others.
  The function gets the data and the kwargs and returns one value per site.
\<close>

record 'k kwargs =
  kw_weights :: "res_data option"
  kw_other :: 'k

record 'k stat =
  st_func :: "res_data \<Rightarrow> 'k kwargs \<Rightarrow> exn + series"
  st_kwargs :: "'k kwargs"

type_synonym table = "(string \<times> series) list"

subsection \<open>Grouping\<close>

definition select_rows :: "frame \<Rightarrow> nat list \<Rightarrow> frame" where
  "select_rows df rows =
     \<lparr> f_index = map (\<lambda>i. f_index df ! i) rows,
       f_cols = map (\<lambda>col. map (\<lambda>i. col ! i) rows) (f_cols df) \<rparr>"

definition grp_name_of :: "int list \<Rightarrow> grp_name" where
  "grp_name_of k = (case k of [x] \<Rightarrow> GScalar x | _ \<Rightarrow> GTuple k)"

text \<open>
  \<open>df.groupby(by)\<close> for a list of key arrays: the rows that agree on every key form a
  group, and the groups come sorted by their keys.
\<close>

definition df_groupby :: "frame \<Rightarrow> int list list \<Rightarrow> (grp_name \<times> frame) list" where
  "df_groupby df by =
     (let n = length (f_index df);
          keys = map (\<lambda>i. map (\<lambda>arr. arr ! i) by) [0..<n]
      in map (\<lambda>k. (grp_name_of k, select_rows df (filter (\<lambda>i. keys ! i = k) [0..<n])))
             (sort (remdups keys)))"

text \<open>\<open>weights.get_group(name)\<close>: a table that was not grouped has no such method.\<close>

definition get_group :: "res_data \<Rightarrow> grp_name \<Rightarrow> exn + frame" where
  "get_group w name =
     (case w of
        Plain df \<Rightarrow> Inl (AttributeError ''get_group'')
      | Grouped gs \<Rightarrow> (case map_of gs name of None \<Rightarrow> Inl KeyError | Some g \<Rightarrow> Inr g))"

subsection \<open>Column names\<close>

fun str_nat :: "nat \<Rightarrow> string" where
  "str_nat n = (if n < 10 then [''0123456789'' ! n]
                else str_nat (n div 10) @ [''0123456789'' ! (n mod 10)])"

declare str_nat.simps [simp del]

text \<open>\<open>"{}".format(s)\<close> and \<open>"{:02d}".format(s)\<close> for an integer.\<close>

definition str_int :: "int \<Rightarrow> string" where
  "str_int i = (if i < 0 then ''-'' @ str_nat (nat (- i)) else str_nat (nat i))"

definition fmt_02d :: "int \<Rightarrow> string" where
  "fmt_02d i = (if 0 \<le> i \<and> i < 10 then ''0'' @ str_int i else str_int i)"

definition month_map :: "(int \<times> string) list" where
  "month_map = [(1, ''Jan''), (2, ''Feb''), (3, ''Mar''), (4, ''Apr''), (5, ''May''),
                (6, ''Jun''), (7, ''Jul''), (8, ''Aug''), (9, ''Sep''), (10, ''Oct''),
                (11, ''Nov''), (12, ''Dec'')]"

definition year_fmt :: "int \<Rightarrow> exn + string" where
  "year_fmt s = Inr (str_int s)"

definition month_fmt :: "int \<Rightarrow> exn + string" where
  "month_fmt s = (case map_of month_map s of None \<Rightarrow> Inl KeyError | Some m \<Rightarrow> Inr m)"

definition hour_fmt :: "int \<Rightarrow> exn + string" where
  "hour_fmt s = Inr (fmt_02d s @ '':00UTC'')"

text \<open>\<open>list(map(f, xs))\<close> for an \<open>f\<close> that can raise: the first exception ends it.\<close>

fun map_exn :: "('a \<Rightarrow> exn + 'b) \<Rightarrow> 'a list \<Rightarrow> exn + 'b list" where
  "map_exn f [] = Inr []"
| "map_exn f (x # xs) =
     (case f x of
        Inl e \<Rightarrow> Inl e
      | Inr y \<Rightarrow> (case map_exn f xs of Inl e \<Rightarrow> Inl e | Inr ys \<Rightarrow> Inr (y # ys)))"

text \<open>
  \<open>np.array(grp_names).T\<close>, with a leading axis added when it is one-dimensional: one row
  per key array. No name at all gives one empty row; names of different shapes give no
  array.
\<close>

fun scalar_of :: "grp_name \<Rightarrow> int option" where
  "scalar_of (GScalar x) = Some x"
| "scalar_of (GTuple t) = None"

fun tuple_of :: "grp_name \<Rightarrow> int list option" where
  "tuple_of (GScalar x) = None"
| "tuple_of (GTuple t) = Some t"

definition key_rows :: "grp_name list \<Rightarrow> exn + int list list" where
  "key_rows gs =
     (if gs = [] then Inr [[]]
      else if list_all (\<lambda>g. scalar_of g \<noteq> None) gs
        then Inr [map (\<lambda>g. the (scalar_of g)) gs]
      else if list_all (\<lambda>g. tuple_of g \<noteq> None \<and> map_option length (tuple_of g)
                              = map_option length (tuple_of (hd gs))) gs
        then Inr (map (\<lambda>j. map (\<lambda>g. the (tuple_of g) ! j) gs)
                      [0..<length (the (tuple_of (hd gs)))])
      else Inl ValueError)"

text \<open>
  \<open>_format_grp_names\<close>: a row whose maximum is at most 12 is taken for months, at most
  23 for hours, and for years otherwise; the maximum of an empty row raises ValueError.
  The result has one list of formatted keys per group.
\<close>

definition format_row :: "int list \<Rightarrow> exn + string list" where
  "format_row grp_i =
     (if grp_i = [] then Inl ValueError
      else let grp_max = Max (set grp_i) in
        if grp_max \<le> 12 then map_exn month_fmt grp_i
        else if grp_max \<le> 23 then map_exn hour_fmt grp_i
        else map_exn year_fmt grp_i)"

definition format_grp_names :: "grp_name list \<Rightarrow> exn + string list list" where
  "format_grp_names grp_names =
     (case key_rows grp_names of
        Inl e \<Rightarrow> Inl e
      | Inr rows \<Rightarrow>
         (case map_exn format_row rows of
            Inl e \<Rightarrow> Inl e
          | Inr out \<Rightarrow> Inr (map (\<lambda>i. map (\<lambda>row. row ! i) out) [0..<length grp_names])))"

text \<open>\<open>'-'.join(n)\<close>.\<close>

fun join :: "string \<Rightarrow> string list \<Rightarrow> string" where
  "join sep [] = []"
| "join sep [x] = x"
| "join sep (x # y # rest) = x @ sep @ join sep (y # rest)"

text \<open>\<open>_create_names\<close>: for every statistic, one column name per group.\<close>

definition create_names ::
  "grp_name list \<Rightarrow> string list \<Rightarrow> exn + (string \<times> string list) list" where
  "create_names groups stats =
     (case format_grp_names groups of
        Inl e \<Rightarrow> Inl e
      | Inr group_names \<Rightarrow>
          Inr (map (\<lambda>s. (s, map (\<lambda>n. join ''-'' n @ ''_'' @ s) group_names)) stats))"

subsection \<open>The weighted and the plain reduction\<close>

text \<open>\<open>s_data[grp_name] = v\<close> on a list: an index out of range or a tuple as index raises.\<close>

definition list_setitem :: "'a list \<Rightarrow> grp_name \<Rightarrow> 'a \<Rightarrow> exn + 'a list" where
  "list_setitem xs key v =
     (case key of
        GTuple t \<Rightarrow> Inl TypeError
      | GScalar i \<Rightarrow>
          (case wrap_index (length xs) i of Inl e \<Rightarrow> Inl e | Inr j \<Rightarrow> Inr (xs[j := v])))"

text \<open>
  The loop of \<open>_compute_weighted_stats\<close> over the groups, from the list \<open>s_data\<close> it has
  so far.
\<close>

fun weighted_loop ::
  "(res_data \<Rightarrow> 'k kwargs \<Rightarrow> exn + series) \<Rightarrow> res_data option \<Rightarrow> 'k kwargs \<Rightarrow>
   series list \<Rightarrow> (grp_name \<times> frame) list \<Rightarrow> exn + series list" where
  "weighted_loop func weights kw s_data [] = Inr s_data"
| "weighted_loop func weights kw s_data ((grp_name, res_grp) # rest) =
     (case (case weights of
              None \<Rightarrow> Inr None
            | Some w \<Rightarrow> map_sum id (\<lambda>g. Some (Plain g)) (get_group w grp_name)) of
        Inl e \<Rightarrow> Inl e
      | Inr grp_w \<Rightarrow>
         (case func (Plain res_grp) (kw\<lparr>kw_weights := grp_w\<rparr>) of
            Inl e \<Rightarrow> Inl e
          | Inr v \<Rightarrow>
             (case list_setitem s_data grp_name v of
                Inl e \<Rightarrow> Inl e
              | Inr s_data' \<Rightarrow> weighted_loop func weights kw s_data' rest)))"

text \<open>
  \<open>pd.DataFrame(rows, columns=names)\<close> for a list of rows: every row needs one entry per
  column.
\<close>

definition frame_of_rows :: "series list \<Rightarrow> string list \<Rightarrow> exn + table" where
  "frame_of_rows rows names =
     (if list_all (\<lambda>r. length r = length names) rows
      then Inr (map (\<lambda>j. (names ! j, map (\<lambda>r. r ! j) rows)) [0..<length names])
      else Inl ValueError)"

text \<open>
  \<open>_compute_weighted_stats\<close>. \<open>column_names\<close> is None or the dict of \<open>_create_names\<close>; a
  dict is truthy when it has a key. Iterating a table that was not grouped yields its
  column labels, which do not unpack into a name and a group.
\<close>

definition compute_weighted_stats ::
  "(res_data \<Rightarrow> 'k kwargs \<Rightarrow> exn + series) \<Rightarrow> res_data \<Rightarrow>
   (string \<times> string list) list option \<Rightarrow> 'k kwargs \<Rightarrow> exn + table" where
  "compute_weighted_stats func res column_names kw =
     (let weights = kw_weights kw in
      if column_names \<noteq> None \<and> column_names \<noteq> Some []
      then (case (case res of
                    Grouped gs \<Rightarrow> weighted_loop func weights kw [] gs
                  | Plain df \<Rightarrow> (if f_cols df = [] then Inr [] else Inl TypeError)) of
              Inl e \<Rightarrow> Inl e
            | Inr s_data \<Rightarrow> frame_of_rows s_data (map fst (the column_names)))
      else (case func res kw of
              Inl e \<Rightarrow> Inl e
            | Inr s_data \<Rightarrow> Inr [(''weighted_mean'', s_data)]))"

text \<open>
  \<open>res_data.aggregate(func, **kwargs)\<close> and the naming that follows it: on a grouped
  table one value of \<open>func\<close> per group, under the column names of this statistic; on
  the table itself one column under the statistic's name.
\<close>

definition aggregate_stat ::
  "string \<Rightarrow> (res_data \<Rightarrow> 'k kwargs \<Rightarrow> exn + series) \<Rightarrow> res_data \<Rightarrow>
   (string \<times> string list) list option \<Rightarrow> 'k kwargs \<Rightarrow> exn + table" where
  "aggregate_stat name func res column_names kw =
     (case res of
        Plain df \<Rightarrow>
          (case func (Plain df) kw of Inl e \<Rightarrow> Inl e | Inr v \<Rightarrow> Inr [(name, v)])
      | Grouped gs \<Rightarrow>
          (case map_exn (\<lambda>(g, df). func (Plain df) kw) gs of
             Inl e \<Rightarrow> Inl e
           | Inr vs \<Rightarrow>
              (case column_names of
                 None \<Rightarrow> Inl TypeError
               | Some names \<Rightarrow>
                  (case map_of names name of
                     None \<Rightarrow> Inl KeyError
                   | Some columns \<Rightarrow>
                      if length columns = length vs then Inr (zip columns vs)
                      else Inl ValueError))))"

text \<open>\<open>name.lower()\<close> on the letters A to Z.\<close>

definition lower_char :: "char \<Rightarrow> char" where
  "lower_char ch =
     (let n = (of_char ch :: nat) in if 65 \<le> n \<and> n \<le> 90 then char_of (n + 32) else ch)"

definition is_weighted :: "string \<Rightarrow> bool" where
  "is_weighted name = prefix ''weight'' (map lower_char name)"

text \<open>The loop of \<open>_compute_stats\<close> over the statistics: one table per statistic.\<close>

fun stats_loop ::
  "res_data \<Rightarrow> (string \<times> string list) list option \<Rightarrow> (string \<times> 'k stat) list \<Rightarrow>
   exn + table list" where
  "stats_loop res column_names [] = Inr []"
| "stats_loop res column_names ((name, st) # rest) =
     (case (if is_weighted name
            then compute_weighted_stats (st_func st) res column_names (st_kwargs st)
            else aggregate_stat name (st_func st) res column_names (st_kwargs st)) of
        Inl e \<Rightarrow> Inl e
      | Inr s_data \<Rightarrow>
          (case stats_loop res column_names rest of
             Inl e \<Rightarrow> Inl e
           | Inr tables \<Rightarrow> Inr (s_data # tables)))"

text \<open>\<open>pd.concat(tables, axis=1)\<close>: nothing to concatenate raises ValueError.\<close>

definition pd_concat :: "table list \<Rightarrow> exn + table" where
  "pd_concat tables = (if tables = [] then Inl ValueError else Inr (concat tables))"

text \<open>
  \<open>_compute_stats\<close>. Its own \<open>weights\<close> argument is a table or None; with a grouping it
  is sent \<open>groupyby\<close>, a method no table has.
\<close>

definition compute_stats ::
  "frame \<Rightarrow> (string \<times> 'k stat) list \<Rightarrow> bool \<Rightarrow> bool \<Rightarrow> frame option \<Rightarrow> exn + table" where
  "compute_stats res_data statistics diurnal month weights =
     (let groupby = (if month then [map ts_month (f_index res_data)] else [])
                  @ (if diurnal then [map ts_hour (f_index res_data)] else [])
      in case (if groupby \<noteq> []
               then (let grouped = df_groupby res_data groupby in
                     case weights of
                       Some w \<Rightarrow> Inl (AttributeError ''groupyby'')
                     | None \<Rightarrow>
                        (case create_names (map fst grouped) (map fst statistics) of
                           Inl e \<Rightarrow> Inl e
                         | Inr names \<Rightarrow> Inr (Grouped grouped, Some names)))
               else Inr (Plain res_data, None)) of
           Inl e \<Rightarrow> Inl e
         | Inr (res, column_names) \<Rightarrow>
            (case stats_loop res column_names statistics of
               Inl e \<Rightarrow> Inl e
             | Inr res_stats \<Rightarrow> pd_concat res_stats))"

subsection \<open>A small table\<close>

text \<open>
  Two sites over three timestamps (two in January, one in February), and a reduction
  that returns the first row of the table it is given.
\<close>

definition three_stamps :: frame where
  "three_stamps =
     \<lparr> f_index = [\<lparr>ts_year = 2010, ts_month = 1, ts_day = 1, ts_hour = 0\<rparr>,
                  \<lparr>ts_year = 2010, ts_month = 1, ts_day = 1, ts_hour = 13\<rparr>,
                  \<lparr>ts_year = 2010, ts_month = 2, ts_day = 1, ts_hour = 0\<rparr>],
       f_cols = [[Some 90, Some 180, Some 270], [Some 0, Some 10, Some 20]] \<rparr>"

definition first_row :: "res_data \<Rightarrow> unit kwargs \<Rightarrow> exn + series" where
  "first_row d kw =
     (case d of
        Plain df \<Rightarrow> Inr (map (\<lambda>col. col ! 0) (f_cols df))
      | Grouped gs \<Rightarrow> Inl TypeError)"

section \<open>multi\_res\_resource.py: the two handlers and the composite\<close>

text \<open>
  A resource handler is outside this repository's composite: it enters as a record of
  what the composite asks of it. \<open>h_getattr\<close> is \<open>getattr(handler, name)\<close>, \<open>h_call\<close>
  calls one of its methods by name, the \<open>get_*\<close> fields are its \<open>_get_*\<close> readers.
\<close>

record 't handler =
  h_class :: string
  h_getattr :: "string \<Rightarrow> exn + pyval"
  h_call :: "string \<Rightarrow> pyval \<Rightarrow> exn + pyval"
  time_index :: "'t list"
  resource_datasets :: "string list"
  get_time_index :: "string \<Rightarrow> selector list \<Rightarrow> exn + pyval"
  get_meta :: "string \<Rightarrow> selector list \<Rightarrow> exn + pyval"
  get_coords :: "string \<Rightarrow> selector list \<Rightarrow> exn + pyval"
  get_ds :: "string \<Rightarrow> selector list \<Rightarrow> exn + series list"

text \<open>
  What the interpreter and scipy contribute: \<open>w_kd_query\<close> is the query of a k-d tree of
  the low-res coordinates with the high-res ones (distances, indices), \<open>w_set_key\<close> the
  order in which a set hands out its elements.
\<close>

record 't world =
  w_kd_query :: "'t handler \<Rightarrow> 't handler \<Rightarrow> real list \<times> int list"
  w_set_key :: "pyval \<Rightarrow> nat"

text \<open>
  The instance: the four attributes \<open>__init__\<close> sets, and \<open>_i\<close>, which \<open>__init__\<close> does
  not set: \<open>inst_i\<close> is None until \<open>__next__\<close> assigns it. \<open>set_key\<close> is the world's.
\<close>

record 't mrr =
  hr_res :: "'t handler"
  lr_res :: "'t handler"
  nn_map :: "int list"
  nn_d :: "real list"
  inst_i :: "pyval option"
  set_key :: "pyval \<Rightarrow> nat"

definition HR_ATTRS :: "string list" where
  "HR_ATTRS = [''meta'', ''time_index'', ''coordinates'', ''lat_lon'', ''data_version'',
               ''global_attrs'', ''get_meta_arr'']"

text \<open>
  \<open>__init__\<close>. \<open>make_nn_map\<close> queries a k-d tree of the low-res coordinates (scipy); its
  result (distances, indices) is the world's \<open>w_kd_query\<close>.
\<close>

definition init ::
  "'t world \<Rightarrow> 't handler \<Rightarrow> 't handler \<Rightarrow> int list option \<Rightarrow> real list \<Rightarrow> exn + 't mrr" where
  "init world hr lr nn_map_arg nn_d_arg =
     (if h_class hr \<noteq> h_class lr then Inl AssertionError
      else Inr \<lparr> hr_res = hr, lr_res = lr,
                 nn_map = (case nn_map_arg of
                             None \<Rightarrow> snd (w_kd_query world hr lr) | Some m \<Rightarrow> m),
                 nn_d = (case nn_map_arg of
                           None \<Rightarrow> fst (w_kd_query world hr lr) | Some m \<Rightarrow> nn_d_arg),
                 inst_i = None, set_key = w_set_key world \<rparr>)"

text \<open>
  \<open>dir(self)\<close>: the instance's attributes, the names the class body defines and the
  names every object has.
\<close>

definition class_dir :: "string list" where
  "class_dir = [''HR_ATTRS'', ''make_nn_map'', ''map_ds_slice'', ''time_interp'',
     ''_preload_SAM'', ''__init__'', ''__repr__'', ''__enter__'', ''__exit__'', ''__len__'',
     ''__getitem__'', ''__iter__'', ''__next__'', ''__contains__'', ''__getattr__'',
     ''__class__'', ''__delattr__'', ''__dict__'', ''__dir__'', ''__doc__'', ''__eq__'',
     ''__format__'', ''__ge__'', ''__getattribute__'', ''__getstate__'', ''__gt__'',
     ''__hash__'', ''__init_subclass__'', ''__le__'', ''__lt__'', ''__module__'', ''__ne__'',
     ''__new__'', ''__reduce__'', ''__reduce_ex__'', ''__setattr__'', ''__sizeof__'',
     ''__str__'', ''__subclasshook__'', ''__weakref__'']"

definition dir_self :: "'t mrr \<Rightarrow> string list" where
  "dir_self c = [''_hr_res'', ''_lr_res'', ''_nn_map'', ''_nn_d'']
     @ (case inst_i c of None \<Rightarrow> [] | Some v \<Rightarrow> [''_i'']) @ class_dir"

text \<open>
  The value of a name that \<open>dir(self)\<close> lists: \<open>_i\<close> once set, the two arrays of the
  nearest-neighbour map, any other as an object.
\<close>

definition own_attr :: "'t mrr \<Rightarrow> string \<Rightarrow> pyval" where
  "own_attr c attr =
     (if attr = ''_i'' \<and> inst_i c \<noteq> None then the (inst_i c)
      else if attr = ''_nn_map'' \<or> attr = ''_nn_d'' then PArr attr
      else PObj attr)"

text \<open>
  \<open>__getattr__\<close>. Inside the \<open>try\<close>, a failing \<open>getattr\<close> on either handler, a failing
  \<open>set(...)\<close> or a failing \<open>copy.deepcopy(lr_attr)\<close> is caught; the handler formats
  \<open>hr_attr\<close> and \<open>lr_attr\<close> into the message, and a name not yet bound at that point
  raises UnboundLocalError there.
  When no branch of the \<open>if\<close>/\<open>elif\<close> chain matches, the function falls off its end and
  returns None.
\<close>

definition getattr_c :: "'t mrr \<Rightarrow> string \<Rightarrow> exn + pyval" where
  "getattr_c c attr =
     (if attr \<in> set (dir_self c) then Inr (own_attr c attr)
      else if attr \<in> set HR_ATTRS then h_getattr (hr_res c) attr
      else (case h_getattr (hr_res c) attr of
              Inl e \<Rightarrow> Inl (UnboundLocalError ''hr_attr'')
            | Inr hr_attr \<Rightarrow>
               (case h_getattr (lr_res c) attr of
                  Inl e \<Rightarrow> Inl (UnboundLocalError ''lr_attr'')
                | Inr lr_attr \<Rightarrow>
                   (case (hr_attr, lr_attr) of
                      (PList a, PList b) \<Rightarrow>
                        (case py_list_set (set_key c) (a @ b) of
                           Inl e \<Rightarrow> Inl (RuntimeError_attr attr hr_attr lr_attr)
                         | Inr u \<Rightarrow> Inr (PList u))
                    | (PTuple a, PTuple b) \<Rightarrow> Inr (PTuple (a @ b))
                    | (PDict a, PDict b) \<Rightarrow>
                        (if copyable lr_attr then Inr (PDict (dict_update b a))
                         else Inl (RuntimeError_attr attr hr_attr lr_attr))
                    | _ \<Rightarrow> Inr PNone))))"

text \<open>
  Reading \<open>self._i\<close> and \<open>self.datasets\<close>: the instance dictionary first, then
  \<open>__getattr__\<close>. Calling a value: only an object can be callable, and the objects the
  delegation hands out are the high-res handler's.
\<close>

definition self_i :: "'t mrr \<Rightarrow> exn + pyval" where
  "self_i c = (case inst_i c of Some v \<Rightarrow> Inr v | None \<Rightarrow> getattr_c c ''_i'')"

definition self_datasets :: "'t mrr \<Rightarrow> exn + pyval" where
  "self_datasets c = getattr_c c ''datasets''"

definition py_call :: "'t mrr \<Rightarrow> pyval \<Rightarrow> pyval \<Rightarrow> exn + pyval" where
  "py_call c f arg = (case f of PObj n \<Rightarrow> h_call (hr_res c) n arg | _ \<Rightarrow> Inl TypeError)"

text \<open>\<open>__next__\<close>: the result (a dataset name, or the exception) and the instance after it.\<close>

definition mrr_next :: "'t mrr \<Rightarrow> (exn + pyval) \<times> 't mrr" where
  "mrr_next c =
     (case self_i c of Inl e \<Rightarrow> (Inl e, c) | Inr i \<Rightarrow>
     (case self_datasets c of Inl e \<Rightarrow> (Inl e, c) | Inr ds \<Rightarrow>
     (case py_len ds of Inl e \<Rightarrow> (Inl e, c) | Inr n \<Rightarrow>
     (case py_ge i (PInt n) of Inl e \<Rightarrow> (Inl e, c)
      | Inr stop \<Rightarrow>
         if stop then (Inl StopIteration, c\<lparr>inst_i := Some (PInt 0)\<rparr>)
         else (case py_getitem ds i of Inl e \<Rightarrow> (Inl e, c) | Inr dset \<Rightarrow>
              (case py_add i (PInt 1) of Inl e \<Rightarrow> (Inl e, c)
               | Inr i' \<Rightarrow> (Inr dset, c\<lparr>inst_i := Some i'\<rparr>)))))))"

subsection \<open>Site mapping and temporal interpolation\<close>

text \<open>\<open>a[s]\<close> on a one-dimensional integer array: a scalar for an integer, else an array.\<close>

fun wrap_indices :: "nat \<Rightarrow> int list \<Rightarrow> exn + nat list" where
  "wrap_indices n [] = Inr []"
| "wrap_indices n (i # rest) =
     (case wrap_index n i of Inl e \<Rightarrow> Inl e
      | Inr j \<Rightarrow> (case wrap_indices n rest of Inl e \<Rightarrow> Inl e | Inr js \<Rightarrow> Inr (j # js)))"

fun np_getitem :: "int list \<Rightarrow> selector \<Rightarrow> exn + selector" where
  "np_getitem a (SInt i) =
     (case wrap_index (length a) i of Inl e \<Rightarrow> Inl e | Inr j \<Rightarrow> Inr (SInt (a ! j)))"
| "np_getitem a (SSlice start stop step) =
     (case slice_indices start stop step (int (length a)) of Inl e \<Rightarrow> Inl e
      | Inr (x, y, st) \<Rightarrow>
         (case py_range x y st of Inl e \<Rightarrow> Inl e
          | Inr idx \<Rightarrow> Inr (SArray (map (\<lambda>i. a ! nat i) idx))))"
| "np_getitem a (SList idx) =
     (case wrap_indices (length a) idx of Inl e \<Rightarrow> Inl e
      | Inr js \<Rightarrow> Inr (SArray (map (\<lambda>j. a ! j) js)))"
| "np_getitem a (SArray idx) =
     (case wrap_indices (length a) idx of Inl e \<Rightarrow> Inl e
      | Inr js \<Rightarrow> Inr (SArray (map (\<lambda>j. a ! j) js)))"

text \<open>
  \<open>map_ds_slice\<close>: a one-entry selector tuple gets the full slice as site selector, more
  than two entries are refused, and unpacking an empty tuple into two names raises
  ValueError.
\<close>

definition map_ds_slice :: "'t mrr \<Rightarrow> selector list \<Rightarrow> exn + selector list" where
  "map_ds_slice c ds_slice =
     (if 2 < length ds_slice then Inl (ResourceRuntimeError ''Cannot handle ds_slice > 2D'')
      else (case (if length ds_slice = 1 then ds_slice @ [SSlice None None None] else ds_slice) of
              [t_slice, s_slice] \<Rightarrow>
                (case np_getitem (nn_map c) s_slice of
                   Inl e \<Rightarrow> Inl e
                 | Inr s' \<Rightarrow> Inr [t_slice, s'])
            | _ \<Rightarrow> Inl ValueError))"

text \<open>
  \<open>DataFrame(arr, index=...)\<close> needs one row per index entry. \<open>reindex\<close> looks every new
  label up in the old index: a label that is absent gives a missing row; an old index
  with a repeated label is refused unless the two indexes are equal.
\<close>

definition data_frame :: "'t list \<Rightarrow> series list \<Rightarrow> exn + series list" where
  "data_frame idx arr =
     (if list_all (\<lambda>col. length col = length idx) arr then Inr arr else Inl ValueError)"

definition reindex_col :: "'t list \<Rightarrow> 't list \<Rightarrow> series \<Rightarrow> series" where
  "reindex_col old new col =
     map (\<lambda>t. case map_of (zip old col) t of None \<Rightarrow> None | Some v \<Rightarrow> v) new"

definition reindex :: "'t list \<Rightarrow> 't list \<Rightarrow> series list \<Rightarrow> exn + series list" where
  "reindex old new cols =
     (if old = new then Inr cols
      else if \<not> distinct old then Inl ValueError
      else Inr (map (reindex_col old new) cols))"

text \<open>
  \<open>interpolate('linear')\<close> treats the rows as equally spaced and fills forward only: a
  missing value between two present ones is interpolated by position, one after the last
  present value takes that value, one before the first present value stays missing.
  \<open>next_valid\<close> finds the next present value and its distance; \<open>interp_from\<close> carries the
  last present value and the distance from it.
\<close>

fun next_valid :: "series \<Rightarrow> (nat \<times> real) option" where
  "next_valid [] = None"
| "next_valid (Some v # xs) = Some (0, v)"
| "next_valid (None # xs) =
     (case next_valid xs of None \<Rightarrow> None | Some (d, v) \<Rightarrow> Some (Suc d, v))"

fun interp_from :: "(nat \<times> real) option \<Rightarrow> series \<Rightarrow> series" where
  "interp_from prev [] = []"
| "interp_from prev (Some v # xs) = Some v # interp_from (Some (1, v)) xs"
| "interp_from None (None # xs) = None # interp_from None xs"
| "interp_from (Some (d, a)) (None # xs) =
     (case next_valid xs of
        None \<Rightarrow> Some a
      | Some (k, b) \<Rightarrow> Some (a + (b - a) * real d / real (d + k + 1)))
     # interp_from (Some (Suc d, a)) xs"

definition interpolate_linear :: "series \<Rightarrow> series" where
  "interpolate_linear xs = interp_from None xs"

fun ffill_from :: "real option \<Rightarrow> series \<Rightarrow> series" where
  "ffill_from prev [] = []"
| "ffill_from prev (Some v # xs) = Some v # ffill_from (Some v) xs"
| "ffill_from prev (None # xs) = prev # ffill_from prev xs"

definition ffill :: "series \<Rightarrow> series" where
  "ffill xs = ffill_from None xs"

definition bfill :: "series \<Rightarrow> series" where
  "bfill xs = rev (ffill_from None (rev xs))"

definition time_interp :: "'t mrr \<Rightarrow> series list \<Rightarrow> exn + series list" where
  "time_interp c arr =
     (case data_frame (time_index (lr_res c)) arr of
        Inl e \<Rightarrow> Inl e
      | Inr df \<Rightarrow>
         (case reindex (time_index (lr_res c)) (time_index (hr_res c)) df of
            Inl e \<Rightarrow> Inl e
          | Inr df' \<Rightarrow> Inr (map (\<lambda>col. bfill (ffill (interpolate_linear col))) df')))"

subsection \<open>Reading through the composite\<close>

text \<open>\<open>os.path.split(ds)[1]\<close>: what follows the last slash.\<close>

definition path_tail :: "string \<Rightarrow> string" where
  "path_tail p = rev (takeWhile (\<lambda>ch. ch \<noteq> CHR ''/'') (rev p))"

datatype item = Data "series list" | Obj pyval

text \<open>
  \<open>__getitem__\<close>, from the pair \<open>parse_keys\<close> returns (the dataset and the tuple of
  selectors). \<open>out\<close> is bound in the branches of the \<open>if\<close>/\<open>elif\<close> chain only, and the
  chain has no \<open>else\<close>: \<open>return out\<close> raises UnboundLocalError when no branch was taken.
\<close>

definition getitem :: "'t mrr \<Rightarrow> string \<Rightarrow> selector list \<Rightarrow> exn + item" where
  "getitem c ds ds_slice =
     (let ds_name = path_tail ds in
      if prefix ''time_index'' ds_name
        then map_sum id Obj (get_time_index (hr_res c) ds ds_slice)
      else if prefix ''meta'' ds_name
        then map_sum id Obj (get_meta (hr_res c) ds ds_slice)
      else if prefix ''coordinates'' ds_name
        then map_sum id Obj (get_coords (hr_res c) ds ds_slice)
      else if sublist ''SAM'' ds_name
        then (case ds_slice of
                [] \<Rightarrow> Inl IndexError
              | site # rest \<Rightarrow>
                 (case site of
                    SInt n \<Rightarrow>
                      (case getattr_c c ''get_SAM_df'' of
                         Inl e \<Rightarrow> Inl e
                       | Inr f \<Rightarrow> map_sum id Obj (py_call c f (PInt n)))
                  | _ \<Rightarrow> Inl (ResourceRuntimeError
                               ''Can only extract SAM DataFrame for a single site'')))
      else if ds_name \<in> set (resource_datasets (hr_res c))
        then map_sum id Data (get_ds (hr_res c) ds ds_slice)
      else if ds_name \<in> set (resource_datasets (lr_res c))
        then (case map_ds_slice c ds_slice of
                Inl e \<Rightarrow> Inl e
              | Inr ds_slice' \<Rightarrow>
                 (case get_ds (lr_res c) ds ds_slice' of
                    Inl e \<Rightarrow> Inl e
                  | Inr out \<Rightarrow> map_sum id Data (time_interp c out)))
      else Inl (UnboundLocalError ''out''))"

subsection \<open>A small two-resolution set-up\<close>

text \<open>
  A reader over an array held in memory: \<open>np_take\<close> is \<open>a[s]\<close> along one axis (a single
  integer keeps the axis here, with one entry), \<open>read_array\<close> applies the site selector
  and then the time selector.
\<close>

fun np_take :: "'a list \<Rightarrow> selector \<Rightarrow> exn + 'a list" where
  "np_take a (SInt i) =
     (case wrap_index (length a) i of Inl e \<Rightarrow> Inl e | Inr j \<Rightarrow> Inr [a ! j])"
| "np_take a (SSlice start stop step) =
     (case slice_indices start stop step (int (length a)) of Inl e \<Rightarrow> Inl e
      | Inr (x, y, st) \<Rightarrow>
         (case py_range x y st of Inl e \<Rightarrow> Inl e
          | Inr idx \<Rightarrow> Inr (map (\<lambda>i. a ! nat i) idx)))"
| "np_take a (SList idx) =
     (case wrap_indices (length a) idx of Inl e \<Rightarrow> Inl e
      | Inr js \<Rightarrow> Inr (map (\<lambda>j. a ! j) js))"
| "np_take a (SArray idx) =
     (case wrap_indices (length a) idx of Inl e \<Rightarrow> Inl e
      | Inr js \<Rightarrow> Inr (map (\<lambda>j. a ! j) js))"

definition read_array :: "series list \<Rightarrow> selector list \<Rightarrow> exn + series list" where
  "read_array arr sl =
     (case sl of
        [t, s] \<Rightarrow>
          (case np_take arr s of
             Inl e \<Rightarrow> Inl e
           | Inr cols \<Rightarrow> map_exn (\<lambda>col. np_take col t) cols)
      | _ \<Rightarrow> Inl TypeError)"

text \<open>
  The set-up of \<open>tests/test_multi_res_resource.py\<close> in small: a high-res handler with
  three sites and the hours 0 to 3 that holds the wind speed, and a low-res handler of
  the same class with two sites and the hours 1 and 3 that holds the temperature. The
  low-res site 0 is nearest to the high-res sites 0 and 1, the low-res site 1 to site 2.
  In this world a set hands out shorter strings first.
\<close>

definition example_hr_data :: "series list" where
  "example_hr_data = [[Some 5, Some 6, Some 7, Some 8],
                      [Some 5, Some 5, Some 5, Some 5],
                      [Some 1, Some 2, Some 3, Some 4]]"

definition example_hr :: "nat handler" where
  "example_hr =
     \<lparr> h_class = ''WindResource'',
       h_getattr = (\<lambda>a.
         if a = ''datasets'' then Inr (PList [PStr ''meta'', PStr ''time_index'', PStr ''windspeed_100m''])
         else if a = ''shapes'' then Inr (PDict [(PStr ''windspeed_100m'', PTuple [PInt 4, PInt 3])])
         else if a = ''h5_file'' then Inr (PStr ''wtk_2010_hr.h5'')
         else if a = ''meta'' then Inr (PArr ''hr_meta'')
         else if a = ''_i'' then Inr (PInt 0)
         else Inl (AttributeError a)),
       h_call = (\<lambda>n arg. Inl TypeError),
       time_index = [0, 1, 2, 3],
       resource_datasets = [''windspeed_100m''],
       get_time_index = (\<lambda>ds sl. Inr (PArr ''hr_time_index'')),
       get_meta = (\<lambda>ds sl. Inr (PArr ''hr_meta'')),
       get_coords = (\<lambda>ds sl. Inr (PArr ''hr_coordinates'')),
       get_ds = (\<lambda>ds sl. read_array example_hr_data sl) \<rparr>"

definition example_lr_data :: "series list" where
  "example_lr_data = [[Some 10, Some 20], [Some 30, Some 50]]"

definition example_lr :: "nat handler" where
  "example_lr =
     \<lparr> h_class = ''WindResource'',
       h_getattr = (\<lambda>a.
         if a = ''datasets'' then Inr (PList [PStr ''meta'', PStr ''time_index'', PStr ''temperature_100m''])
         else if a = ''shapes'' then Inr (PDict [(PStr ''temperature_100m'', PTuple [PInt 2, PInt 2])])
         else if a = ''h5_file'' then Inr (PStr ''wtk_2010_lr.h5'')
         else if a = ''meta'' then Inr (PArr ''lr_meta'')
         else if a = ''_i'' then Inr (PInt 0)
         else Inl (AttributeError a)),
       h_call = (\<lambda>n arg. Inl TypeError),
       time_index = [1, 3],
       resource_datasets = [''temperature_100m''],
       get_time_index = (\<lambda>ds sl. Inr (PArr ''lr_time_index'')),
       get_meta = (\<lambda>ds sl. Inr (PArr ''lr_meta'')),
       get_coords = (\<lambda>ds sl. Inr (PArr ''lr_coordinates'')),
       get_ds = (\<lambda>ds sl. read_array example_lr_data sl) \<rparr>"

definition example_world :: "nat world" where
  "example_world =
     \<lparr> w_kd_query = (\<lambda>hr lr. ([0, 1, 0], [0, 0, 1])),
       w_set_key = (\<lambda>v. case v of PStr s \<Rightarrow> length s | _ \<Rightarrow> 0) \<rparr>"

definition example_mrr :: "nat mrr" where
  "example_mrr =
     \<lparr> hr_res = example_hr, lr_res = example_lr, nn_map = [0, 0, 1],
       nn_d = [0, 1, 0], inst_i = None, set_key = w_set_key example_world \<rparr>"

text \<open>\<open>setattr(handler, name, v)\<close>: the handler with one more attribute.\<close>

definition with_attr :: "'t handler \<Rightarrow> string \<Rightarrow> pyval \<Rightarrow> 't handler" where
  "with_attr h name v = h\<lparr>h_getattr := (\<lambda>a. if a = name then Inr v else h_getattr h a)\<rparr>"

section \<open>Properties of the gid index\<close>

text \<open>
  The first gid of a slice over \<open>n\<close> sites: 0 without a start, a start from 0 on cut
  at \<open>n\<close>, a negative start counted from \<open>n\<close> and cut at 0.
\<close>

lemma slice_indices_forward:
  assumes "0 < n" and "0 < s" and "step = Some s \<or> step = None \<and> s = 1"
  shows "slice_indices start (Some n) step n =
     Inr ((case start of None \<Rightarrow> 0 | Some a \<Rightarrow> if a < 0 then max (a + n) 0 else min a n), n, s)"
  using assms by (auto simp: slice_indices_def Let_def split: option.splits)

lemma py_range_forward:
  assumes "0 < s" and "lo \<le> n"
  shows "py_range lo n s = Inr (map (\<lambda>k. lo + int k * s) [0..<nat ((n - lo + s - 1) div s)])"
proof (cases "lo < n")
  case True
  have "(n - lo - 1) div s + 1 = (n - lo - 1 + s) div s"
    using assms(1) by simp
  also have "n - lo - 1 + s = n - lo + s - 1" by simp
  finally show ?thesis
    using True assms(1) by (simp add: py_range_def Let_def)
next
  case False
  with assms have "n - lo + s - 1 = s - 1" by simp
  moreover have "(s - 1) div s = 0"
    using assms(1) by (simp add: div_pos_pos_trivial)
  ultimately show ?thesis
    using False assms(1) by (simp add: py_range_def Let_def)
qed

lemma create_index_forward:
  assumes "0 < n" and "0 < s" and "step = Some s \<or> step = None \<and> s = 1"
    and "lo = (case start of None \<Rightarrow> 0 | Some a \<Rightarrow> if a < 0 then max (a + n) 0 else min a n)"
  shows "create_index (SSlice start (Some n) step) =
     Inr (map (\<lambda>k. lo + int k * s) [0..<nat ((n - lo + s - 1) div s)])"
proof -
  have "lo \<le> n" using assms(1,4) by (auto split: option.splits)
  from py_range_forward[OF assms(2) this] slice_indices_forward[OF assms(1-3), of start] assms(1,4)
  show ?thesis by simp
qed

lemma create_index_backward:
  assumes "0 < n" and "s < 0"
  shows "create_index (SSlice start (Some n) (Some s)) = Inr []"
  using assms
  by (auto simp: slice_indices_def py_range_def Let_def split: option.splits)

lemma forward_gids_set:
  assumes "0 < s" and "lo \<le> n"
  shows "set (map (\<lambda>k. lo + int k * s) [0..<nat ((n - lo + s - 1) div s)])
     = {i. lo \<le> i \<and> i < n \<and> s dvd (i - lo)}"
proof -
  let ?x = "n - lo + s - 1"
  let ?c = "nat (?x div s)"
  have split: "?x div s * s + ?x mod s = ?x" by simp
  have nonneg: "0 \<le> ?x mod s" using assms(1) by simp
  have "i \<in> set (map (\<lambda>k. lo + int k * s) [0..<?c]) \<longleftrightarrow> lo \<le> i \<and> i < n \<and> s dvd (i - lo)"
    for i
  proof
    assume "i \<in> set (map (\<lambda>k. lo + int k * s) [0..<?c])"
    then obtain k where k: "k < ?c" "i = lo + int k * s" by auto
    from k(1) have "int k + 1 \<le> ?x div s" by simp
    then have "(int k + 1) * s \<le> ?x div s * s"
      using assms(1) by (simp add: mult_right_mono)
    with split nonneg have "(int k + 1) * s \<le> ?x" by linarith
    then have "int k * s < n - lo" by (simp add: algebra_simps)
    moreover have "0 \<le> int k * s" using assms(1) by simp
    ultimately show "lo \<le> i \<and> i < n \<and> s dvd (i - lo)"
      using k(2) by simp
  next
    assume a: "lo \<le> i \<and> i < n \<and> s dvd (i - lo)"
    then obtain q where q: "i - lo = s * q" by (auto simp: dvd_def)
    with a assms(1) have q0: "0 \<le> q"
      by (metis diff_ge_0_iff_ge zero_le_mult_iff not_less order_less_imp_le)
    from q a have "(q + 1) * s \<le> ?x" by (simp add: algebra_simps)
    then have "(q + 1) * s div s \<le> ?x div s"
      using assms(1) by (intro zdiv_mono1) simp_all
    then have "q + 1 \<le> ?x div s" using assms(1) by simp
    with q0 have "nat q < ?c" by simp
    moreover have "i = lo + int (nat q) * s" using q q0 by (simp add: algebra_simps)
    ultimately have "nat q \<in> {0..<?c} \<and> i = (\<lambda>k. lo + int k * s) (nat q)"
      by simp
    then have "i \<in> (\<lambda>k. lo + int k * s) ` {0..<?c}"
      by blast
    then show "i \<in> set (map (\<lambda>k. lo + int k * s) [0..<?c])"
      by simp
  qed
  then show ?thesis by blast
qed

lemma forward_gids_ascending:
  assumes "0 < s"
  shows "sorted (map (\<lambda>k. lo + int k * s) [0..<c]) \<and> distinct (map (\<lambda>k. lo + int k * s) [0..<c])"
proof
  have "int i * s \<le> int j * s" if "i < j" for i j
    using that assms by (simp add: mult_right_mono)
  then show "sorted (map (\<lambda>k. lo + int k * s) [0..<c])"
    by (simp add: sorted_map sorted_wrt_map sorted_wrt_iff_nth_less)
  have "inj_on (\<lambda>k. lo + int k * s) {0..<c}"
    using assms by (simp add: inj_on_def)
  then show "distinct (map (\<lambda>k. lo + int k * s) [0..<c])"
    by (simp add: distinct_map)
qed


lemma create_index_returns_only:
  assumes "create_index sel = Inr idx"
  shows "(\<exists>xs. sel = SList xs \<or> sel = SArray xs) \<or>
         (\<exists>start n step. sel = SSlice start (Some n) step \<and> 0 < n \<and> step \<noteq> Some 0)"
proof (cases sel)
  case (SSlice start stop step)
  with assms obtain n where n: "stop = Some n" "n \<noteq> 0"
    by (cases stop) (auto split: if_splits)
  have "0 \<le> n"
    using assms SSlice n by (auto simp: slice_indices_def split: if_splits)
  moreover have "step \<noteq> Some 0"
    using assms SSlice n by (auto simp: slice_indices_def split: if_splits)
  ultimately show ?thesis using SSlice n by simp
qed (use assms in simp_all)

lemma create_index_negative_stop:
  "n < 0 \<Longrightarrow> create_index (SSlice start (Some n) step) = Inl ValueError"
  by (simp add: slice_indices_def)

lemma create_index_zero_step:
  "n \<noteq> 0 \<Longrightarrow> create_index (SSlice start (Some n) (Some 0)) = Inl ValueError"
  by (simp add: slice_indices_def)

text \<open>
  C10, as the code has it. The gid index is produced only for list/array selectors and
  for slices with a positive stop and a step other than 0. A list or array is returned
  as it is. A slice with a positive stop \<open>n\<close> gives \<open>list(range(*slice.indices(n)))\<close>:
  with a positive step \<open>s\<close> (1 when there is none) that is the ascending gids
  \<open>lo, lo + s, ...\<close> below \<open>n\<close>, where \<open>lo\<close> is 0 without a start, a start from 0 on cut
  at \<open>n\<close>, and a negative start counted from \<open>n\<close> and cut at 0; with a negative step it
  is the empty list. A slice with a negative stop, or with a stop other than None and 0
  and the step 0, raises ValueError in \<open>slice.indices\<close>. A slice whose stop is None (for
  example \<open>slice(None)\<close>) or 0, and a selector that is neither a slice nor a list or
  array, bind no index and fail with an unbound-local error.
\<close>

theorem create_index_of_selector:
  "create_index (SList xs) = Inr xs \<and>
   create_index (SArray xs) = Inr xs \<and>
   (0 < n \<and> 0 < s \<and> (step = Some s \<or> step = None \<and> s = 1) \<and>
    lo = (case start of None \<Rightarrow> 0 | Some a \<Rightarrow> if a < 0 then max (a + n) 0 else min a n) \<longrightarrow>
      (\<exists>idx. create_index (SSlice start (Some n) step) = Inr idx \<and>
         idx = map (\<lambda>k. lo + int k * s) [0..<nat ((n - lo + s - 1) div s)] \<and>
         sorted idx \<and> distinct idx \<and>
         set idx = {i. lo \<le> i \<and> i < n \<and> s dvd (i - lo)})) \<and>
   (0 < n \<and> s < 0 \<longrightarrow> create_index (SSlice start (Some n) (Some s)) = Inr []) \<and>
   (n < 0 \<longrightarrow> create_index (SSlice start (Some n) step) = Inl ValueError) \<and>
   (n \<noteq> 0 \<longrightarrow> create_index (SSlice start (Some n) (Some 0)) = Inl ValueError) \<and>
   create_index (SSlice start None step) = Inl (UnboundLocalError ''idx'') \<and>
   create_index (SSlice start (Some 0) step) = Inl (UnboundLocalError ''idx'') \<and>
   create_index (SInt g) = Inl (UnboundLocalError ''idx'') \<and>
   (create_index sel = Inr gids \<longrightarrow>
      (\<exists>xs. sel = SList xs \<or> sel = SArray xs) \<or>
      (\<exists>start n step. sel = SSlice start (Some n) step \<and> 0 < n \<and> step \<noteq> Some 0))"
proof (intro conjI impI)
  show "create_index (SList xs) = Inr xs" by simp
  show "create_index (SArray xs) = Inr xs" by simp
  show "\<exists>idx. create_index (SSlice start (Some n) step) = Inr idx \<and>
         idx = map (\<lambda>k. lo + int k * s) [0..<nat ((n - lo + s - 1) div s)] \<and>
         sorted idx \<and> distinct idx \<and>
         set idx = {i. lo \<le> i \<and> i < n \<and> s dvd (i - lo)}"
    if h: "0 < n \<and> 0 < s \<and> (step = Some s \<or> step = None \<and> s = 1) \<and>
        lo = (case start of None \<Rightarrow> 0 | Some a \<Rightarrow> if a < 0 then max (a + n) 0 else min a n)"
  proof -
    from h have le: "lo \<le> n" by (auto split: option.splits)
    from h have "create_index (SSlice start (Some n) step) =
        Inr (map (\<lambda>k. lo + int k * s) [0..<nat ((n - lo + s - 1) div s)])"
      by (intro create_index_forward) simp_all
    moreover from h have "sorted (map (\<lambda>k. lo + int k * s) [0..<nat ((n - lo + s - 1) div s)])
        \<and> distinct (map (\<lambda>k. lo + int k * s) [0..<nat ((n - lo + s - 1) div s)])"
      by (intro forward_gids_ascending) simp
    moreover from h le have "set (map (\<lambda>k. lo + int k * s) [0..<nat ((n - lo + s - 1) div s)])
        = {i. lo \<le> i \<and> i < n \<and> s dvd (i - lo)}"
      by (intro forward_gids_set) simp_all
    ultimately show ?thesis by blast
  qed
  show "create_index (SSlice start (Some n) (Some s)) = Inr []" if "0 < n \<and> s < 0"
    using that by (intro create_index_backward) simp_all
  show "create_index (SSlice start (Some n) step) = Inl ValueError" if "n < 0"
    using that by (rule create_index_negative_stop)
  show "create_index (SSlice start (Some n) (Some 0)) = Inl ValueError" if "n \<noteq> 0"
    using that by (rule create_index_zero_step)
  show "create_index (SSlice start None step) = Inl (UnboundLocalError ''idx'')" by simp
  show "create_index (SSlice start (Some 0) step) = Inl (UnboundLocalError ''idx'')" by simp
  show "create_index (SInt g) = Inl (UnboundLocalError ''idx'')" by simp
  show "(\<exists>xs. sel = SList xs \<or> sel = SArray xs) \<or>
      (\<exists>start n step. sel = SSlice start (Some n) step \<and> 0 < n \<and> step \<noteq> Some 0)"
    if "create_index sel = Inr gids"
    using that by (rule create_index_returns_only)
qed

theorem create_index_of_selector_witness:
  "create_index (SList [3, 5]) = Inr [3, 5] \<and>
   create_index (SArray [3, 5]) = Inr [3, 5] \<and>
   (0::int) < 6 \<and> (0::int) < 4 \<and>
   create_index (SSlice (Some (- 20)) (Some 6) (Some 4)) = Inr [0, 4] \<and>
   create_index (SSlice (Some 1) (Some 4) None) = Inr [1, 2, 3] \<and>
   create_index (SSlice (Some (- 2)) (Some 5) None) = Inr [3, 4] \<and>
   (- 1::int) < 0 \<and>
   create_index (SSlice None (Some 5) (Some (- 1))) = Inr [] \<and>
   create_index (SSlice (Some 1) None None) = Inl (UnboundLocalError ''idx'')"
proof -
  have a: "create_index (SSlice (Some (- 20)) (Some 6) (Some 4)) = Inr [0, 4]"
    using create_index_of_selector
      [where n = 6 and s = 4 and step = "Some 4" and lo = 0 and start = "Some (- 20)"]
    by (simp add: upt_rec)
  have b: "create_index (SSlice (Some 1) (Some 4) None) = Inr [1, 2, 3]"
    using create_index_of_selector
      [where n = 4 and s = 1 and step = None and lo = 1 and start = "Some 1"]
    by (simp add: upt_rec)
  have c: "create_index (SSlice (Some (- 2)) (Some 5) None) = Inr [3, 4]"
    using create_index_of_selector
      [where n = 5 and s = 1 and step = None and lo = 3 and start = "Some (- 2)"]
    by (simp add: upt_rec)
  have d: "create_index (SSlice None (Some 5) (Some (- 1))) = Inr []"
    using create_index_of_selector
      [where n = 5 and s = "- 1" and start = None]
    by simp
  from a b c d show ?thesis by simp
qed

text \<open>
  A stop that is neither None nor 0 does not make the index total: \<open>slice(2, -3)\<close> and
  \<open>slice(None, 6, 0)\<close> raise ValueError and return no list.
\<close>

theorem create_index_negative_stop_counterexample:
  "Some (- 3 :: int) \<noteq> None \<and> (- 3 :: int) \<noteq> 0 \<and>
   create_index (SSlice (Some 2) (Some (- 3)) None) = Inl ValueError \<and>
   create_index (SSlice None (Some 6) (Some 0)) = Inl ValueError"
  by (simp add: slice_indices_def)

section \<open>Properties of the attribute delegation\<close>

lemma map_of_rev_distinct:
  assumes "distinct (map fst xs)"
  shows "map_of (rev xs) = map_of xs"
proof -
  have "distinct (map fst (rev xs))"
    using assms by (metis distinct_rev rev_map)
  then show ?thesis
    using assms by (simp add: map_of_inject_set)
qed

lemma map_of_dict_update:
  "map_of (dict_update out other) = map_of out ++ map_of (rev other)"
  unfolding dict_update_def
proof (induction other arbitrary: out)
  case Nil
  show ?case by simp
next
  case (Cons kv other)
  obtain k v where kv: "kv = (k, v)" by (cases kv)
  have "map_of (fold (\<lambda>(k, v). AList.update k v) (kv # other) out)
        = map_of (AList.update k v out) ++ map_of (rev other)"
    using Cons.IH[of "AList.update k v out"] by (simp add: kv)
  also have "\<dots> = map_of out ++ map_of (rev (kv # other))"
    by (simp add: kv update_conv' fun_eq_iff map_add_def split: option.splits)
  finally show ?case .
qed

lemma dict_update_hr_wins:
  assumes "distinct (map fst a)"
  shows "map_of (dict_update b a) k = (case map_of a k of Some v \<Rightarrow> Some v | None \<Rightarrow> map_of b k)"
  by (simp add: map_of_dict_update map_of_rev_distinct[OF assms] map_add_def)

lemma py_list_set_union:
  "list_all hashable xs \<Longrightarrow> \<exists>u. py_list_set key xs = Inr u \<and> set u = set xs \<and> distinct u"
  by (simp add: py_list_set_def)

lemma py_list_set_unhashable:
  "\<not> list_all hashable xs \<Longrightarrow> py_list_set key xs = Inl TypeError"
  by (simp add: py_list_set_def)

lemma getattr_c_delegated_value:
  assumes "attr \<notin> set (dir_self c)" and "attr \<notin> set HR_ATTRS"
    and "getattr_c c attr = Inr v"
  shows "v = PNone \<or> (\<exists>u. v = PList u) \<or> (\<exists>u. v = PTuple u) \<or> (\<exists>d. v = PDict d)"
  using assms
  by (auto simp: getattr_c_def split: sum.splits pyval.splits if_splits)

lemma getattr_c_delegated_error:
  assumes "attr \<notin> set (dir_self c)" and "attr \<notin> set HR_ATTRS"
    and "getattr_c c attr = Inl e"
  shows "e = UnboundLocalError ''hr_attr'' \<or> e = UnboundLocalError ''lr_attr'' \<or>
         (\<exists>a b. e = RuntimeError_attr attr a b)"
  using assms
  by (auto simp: getattr_c_def split: sum.splits pyval.splits if_splits)

text \<open>
  C3, as the code has it. A name in the fixed hr-only set is answered by the high-res
  handler alone. For any other name: two lists whose elements are all hashable give a
  duplicate-free list with exactly the elements of both, two lists with an unhashable
  element (a list, a dict, an array, a table) give the runtime error instead; two
  tuples give hr's followed by lr's; two dicts give a deep copy of the low-res dict
  updated with the high-res one, so the high-res value stands at every key the two
  share, and give the runtime error when the low-res dict cannot be deep-copied.
\<close>

theorem getattr_c_delegation:
  assumes "attr \<notin> set (dir_self c)"
  shows
   "(attr \<in> {''meta'', ''time_index'', ''coordinates'', ''lat_lon'', ''data_version'',
              ''global_attrs'', ''get_meta_arr''} \<longrightarrow>
       getattr_c c attr = h_getattr (hr_res c) attr) \<and>
    (attr \<notin> set HR_ATTRS \<longrightarrow>
       (\<forall>a b. h_getattr (hr_res c) attr = Inr (PList a) \<and>
              h_getattr (lr_res c) attr = Inr (PList b) \<and> list_all hashable (a @ b) \<longrightarrow>
          (\<exists>u. getattr_c c attr = Inr (PList u) \<and> set u = set a \<union> set b \<and> distinct u)) \<and>
       (\<forall>a b. h_getattr (hr_res c) attr = Inr (PList a) \<and>
              h_getattr (lr_res c) attr = Inr (PList b) \<and> \<not> list_all hashable (a @ b) \<longrightarrow>
          getattr_c c attr = Inl (RuntimeError_attr attr (PList a) (PList b))) \<and>
       (\<forall>a b. h_getattr (hr_res c) attr = Inr (PTuple a) \<and>
              h_getattr (lr_res c) attr = Inr (PTuple b) \<longrightarrow>
          getattr_c c attr = Inr (PTuple (a @ b))) \<and>
       (\<forall>a b. h_getattr (hr_res c) attr = Inr (PDict a) \<and>
              h_getattr (lr_res c) attr = Inr (PDict b) \<and> copyable (PDict b) \<and>
              distinct (map fst a) \<longrightarrow>
          (\<exists>d. getattr_c c attr = Inr (PDict d) \<and>
               (\<forall>k. map_of d k = (case map_of a k of Some v \<Rightarrow> Some v | None \<Rightarrow> map_of b k)))) \<and>
       (\<forall>a b. h_getattr (hr_res c) attr = Inr (PDict a) \<and>
              h_getattr (lr_res c) attr = Inr (PDict b) \<and> \<not> copyable (PDict b) \<longrightarrow>
          getattr_c c attr = Inl (RuntimeError_attr attr (PDict a) (PDict b))))"
proof (intro conjI impI allI)
  assume "attr \<in> {''meta'', ''time_index'', ''coordinates'', ''lat_lon'', ''data_version'',
              ''global_attrs'', ''get_meta_arr''}"
  then have "attr \<in> set HR_ATTRS" by (simp add: HR_ATTRS_def)
  with assms show "getattr_c c attr = h_getattr (hr_res c) attr"
    by (simp add: getattr_c_def)
next
  fix a b
  assume n: "attr \<notin> set HR_ATTRS"
    and h: "h_getattr (hr_res c) attr = Inr (PList a) \<and>
            h_getattr (lr_res c) attr = Inr (PList b) \<and> list_all hashable (a @ b)"
  from h py_list_set_union[of "a @ b" "set_key c"]
  obtain u where "py_list_set (set_key c) (a @ b) = Inr u" "set u = set a \<union> set b" "distinct u"
    by auto
  with assms n h show "\<exists>u. getattr_c c attr = Inr (PList u) \<and> set u = set a \<union> set b \<and> distinct u"
    by (simp add: getattr_c_def)
next
  fix a b
  assume n: "attr \<notin> set HR_ATTRS"
    and h: "h_getattr (hr_res c) attr = Inr (PList a) \<and>
            h_getattr (lr_res c) attr = Inr (PList b) \<and> \<not> list_all hashable (a @ b)"
  with assms py_list_set_unhashable[of "a @ b" "set_key c"]
  show "getattr_c c attr = Inl (RuntimeError_attr attr (PList a) (PList b))"
    by (simp add: getattr_c_def)
next
  fix a b
  assume "attr \<notin> set HR_ATTRS"
    and "h_getattr (hr_res c) attr = Inr (PTuple a) \<and> h_getattr (lr_res c) attr = Inr (PTuple b)"
  with assms show "getattr_c c attr = Inr (PTuple (a @ b))"
    by (simp add: getattr_c_def)
next
  fix a b
  assume n: "attr \<notin> set HR_ATTRS"
    and h: "h_getattr (hr_res c) attr = Inr (PDict a) \<and>
            h_getattr (lr_res c) attr = Inr (PDict b) \<and> copyable (PDict b) \<and>
            distinct (map fst a)"
  then have "map_of (dict_update b a) k = (case map_of a k of Some v \<Rightarrow> Some v | None \<Rightarrow> map_of b k)" for k
    by (simp add: dict_update_hr_wins)
  with assms n h
  show "\<exists>d. getattr_c c attr = Inr (PDict d) \<and>
            (\<forall>k. map_of d k = (case map_of a k of Some v \<Rightarrow> Some v | None \<Rightarrow> map_of b k))"
    by (simp add: getattr_c_def)
next
  fix a b
  assume "attr \<notin> set HR_ATTRS"
    and "h_getattr (hr_res c) attr = Inr (PDict a) \<and>
         h_getattr (lr_res c) attr = Inr (PDict b) \<and> \<not> copyable (PDict b)"
  with assms show "getattr_c c attr = Inl (RuntimeError_attr attr (PDict a) (PDict b))"
    by (simp add: getattr_c_def)
qed

theorem getattr_c_delegation_witness:
  "''meta'' \<notin> set (dir_self example_mrr) \<and>
   ''datasets'' \<notin> set (dir_self example_mrr) \<and>
   ''shapes'' \<notin> set (dir_self example_mrr) \<and>
   getattr_c example_mrr ''meta'' = Inr (PArr ''hr_meta'') \<and>
   getattr_c example_mrr ''datasets'' =
     Inr (PList [PStr ''meta'', PStr ''time_index'', PStr ''windspeed_100m'',
                 PStr ''temperature_100m'']) \<and>
   getattr_c example_mrr ''shapes'' =
     Inr (PDict [(PStr ''temperature_100m'', PTuple [PInt 2, PInt 2]),
                 (PStr ''windspeed_100m'', PTuple [PInt 4, PInt 3])])"
proof -
  have d: "''meta'' \<notin> set (dir_self example_mrr)"
    "''datasets'' \<notin> set (dir_self example_mrr)"
    "''shapes'' \<notin> set (dir_self example_mrr)"
    by (simp_all add: dir_self_def class_dir_def example_mrr_def)
  have "getattr_c example_mrr ''meta'' = Inr (PArr ''hr_meta'')"
    using getattr_c_delegation[OF d(1)]
    by (simp add: example_mrr_def example_hr_def)
  moreover have "getattr_c example_mrr ''datasets'' =
     Inr (PList [PStr ''meta'', PStr ''time_index'', PStr ''windspeed_100m'',
                 PStr ''temperature_100m''])"
    by (simp add: getattr_c_def dir_self_def class_dir_def HR_ATTRS_def example_mrr_def
        example_hr_def example_lr_def example_world_def py_list_set_def)
  moreover have "getattr_c example_mrr ''shapes'' =
     Inr (PDict [(PStr ''temperature_100m'', PTuple [PInt 2, PInt 2]),
                 (PStr ''windspeed_100m'', PTuple [PInt 4, PInt 3])])"
    by (simp add: getattr_c_def dir_self_def class_dir_def HR_ATTRS_def example_mrr_def
        example_hr_def example_lr_def dict_update_def)
  ultimately show ?thesis using d by simp
qed

text \<open>
  The claim as the spec words it fails where a list holds an unhashable element (here
  the two handlers' lists of arrays) and where the low-res dict holds a value that
  cannot be deep-copied (here an open dataset): nothing is united or merged, the
  runtime error is raised.
\<close>

theorem getattr_c_list_union_counterexample:
  "''scale_arrays'' \<notin> set (dir_self example_mrr) \<and>
   ''scale_arrays'' \<notin> set HR_ATTRS \<and>
   h_getattr (with_attr example_hr ''scale_arrays'' (PList [PArr ''hr_scale''])) ''scale_arrays''
     = Inr (PList [PArr ''hr_scale'']) \<and>
   h_getattr (with_attr example_lr ''scale_arrays'' (PList [PArr ''lr_scale''])) ''scale_arrays''
     = Inr (PList [PArr ''lr_scale'']) \<and>
   getattr_c (example_mrr\<lparr>
       hr_res := with_attr example_hr ''scale_arrays'' (PList [PArr ''hr_scale'']),
       lr_res := with_attr example_lr ''scale_arrays'' (PList [PArr ''lr_scale''])\<rparr>) ''scale_arrays''
     = Inl (RuntimeError_attr ''scale_arrays'' (PList [PArr ''hr_scale'']) (PList [PArr ''lr_scale''])) \<and>
   ''open_dsets'' \<notin> set (dir_self example_mrr) \<and>
   ''open_dsets'' \<notin> set HR_ATTRS \<and>
   getattr_c (example_mrr\<lparr>
       hr_res := with_attr example_hr ''open_dsets''
                   (PDict [(PStr ''windspeed_100m'', PHandle ''hr_windspeed'')]),
       lr_res := with_attr example_lr ''open_dsets''
                   (PDict [(PStr ''temperature_100m'', PHandle ''lr_temperature'')])\<rparr>) ''open_dsets''
     = Inl (RuntimeError_attr ''open_dsets''
              (PDict [(PStr ''windspeed_100m'', PHandle ''hr_windspeed'')])
              (PDict [(PStr ''temperature_100m'', PHandle ''lr_temperature'')]))"
  by (simp add: getattr_c_def dir_self_def class_dir_def HR_ATTRS_def example_mrr_def
      with_attr_def py_list_set_def)

text \<open>
  C5. The descriptive runtime error is not what an unresolvable or unmergeable attribute
  gets: when a handler does not resolve the name, formatting the message reads a local
  that was never bound and an unbound-local error comes out; when both resolve it to
  values that no branch merges (a list and a tuple, two strings), the access returns
  None.
\<close>

theorem getattr_c_unmergeable_is_silent_or_unbound:
  assumes "attr \<notin> set (dir_self c)" and "attr \<notin> set HR_ATTRS"
  shows "(\<forall>e. h_getattr (hr_res c) attr = Inl e \<longrightarrow>
            getattr_c c attr = Inl (UnboundLocalError ''hr_attr'')) \<and>
         (\<forall>x e. h_getattr (hr_res c) attr = Inr x \<and> h_getattr (lr_res c) attr = Inl e \<longrightarrow>
            getattr_c c attr = Inl (UnboundLocalError ''lr_attr'')) \<and>
         (\<forall>x y. h_getattr (hr_res c) attr = Inr x \<and> h_getattr (lr_res c) attr = Inr y \<and>
                (\<nexists>a b. x = PList a \<and> y = PList b) \<and>
                (\<nexists>a b. x = PTuple a \<and> y = PTuple b) \<and>
                (\<nexists>a b. x = PDict a \<and> y = PDict b) \<longrightarrow>
            getattr_c c attr = Inr PNone)"
  using assms
  by (auto simp: getattr_c_def split: pyval.splits)

theorem getattr_c_unmergeable_is_silent_or_unbound_witness:
  "''shape_tag'' \<notin> set (dir_self example_mrr) \<and> ''shape_tag'' \<notin> set HR_ATTRS \<and>
   getattr_c (example_mrr\<lparr>
       hr_res := with_attr example_hr ''shape_tag'' (PList [PInt 4, PInt 3]),
       lr_res := with_attr example_lr ''shape_tag'' (PTuple [PInt 2, PInt 2])\<rparr>) ''shape_tag''
     = Inr PNone \<and>
   getattr_c example_mrr ''h5_file'' = Inr PNone \<and>
   getattr_c example_mrr ''no_such_attribute'' = Inl (UnboundLocalError ''hr_attr'')"
proof -
  let ?c = "example_mrr\<lparr>
       hr_res := with_attr example_hr ''shape_tag'' (PList [PInt 4, PInt 3]),
       lr_res := with_attr example_lr ''shape_tag'' (PTuple [PInt 2, PInt 2])\<rparr>"
  have d: "''shape_tag'' \<notin> set (dir_self ?c)" "''shape_tag'' \<notin> set (dir_self example_mrr)"
    and h: "''shape_tag'' \<notin> set HR_ATTRS"
    by (simp_all add: dir_self_def class_dir_def HR_ATTRS_def example_mrr_def)
  have "getattr_c ?c ''shape_tag'' = Inr PNone"
    using getattr_c_unmergeable_is_silent_or_unbound[OF d(1) h]
    by (simp add: with_attr_def)
  moreover have "getattr_c example_mrr ''h5_file'' = Inr PNone"
    by (simp add: getattr_c_def dir_self_def class_dir_def HR_ATTRS_def example_mrr_def
        example_hr_def example_lr_def)
  moreover have "getattr_c example_mrr ''no_such_attribute'' = Inl (UnboundLocalError ''hr_attr'')"
    by (simp add: getattr_c_def dir_self_def class_dir_def HR_ATTRS_def example_mrr_def
        example_hr_def example_lr_def)
  ultimately show ?thesis using d h by simp
qed

section \<open>Properties of the iteration\<close>

lemma i_not_in_dir: "inst_i c = None \<Longrightarrow> ''_i'' \<notin> set (dir_self c)"
  by (simp add: dir_self_def class_dir_def)

lemma i_not_hr_attr: "''_i'' \<notin> set HR_ATTRS"
  by (simp add: HR_ATTRS_def)

lemma datasets_not_in_dir: "''datasets'' \<notin> set (dir_self c)"
  by (simp add: dir_self_def class_dir_def split: option.splits)

lemma datasets_not_hr_attr: "''datasets'' \<notin> set HR_ATTRS"
  by (simp add: HR_ATTRS_def)

lemma mrr_next_fresh:
  assumes "inst_i c = None"
  shows "\<exists>e. mrr_next c = (Inl e, c) \<and> e \<noteq> StopIteration"
proof (cases "getattr_c c ''_i''")
  case (Inl e)
  from getattr_c_delegated_error[OF i_not_in_dir[OF assms] i_not_hr_attr Inl]
  have "e \<noteq> StopIteration" by auto
  with Inl assms show ?thesis
    by (simp add: mrr_next_def self_i_def)
next
  case (Inr v)
  from getattr_c_delegated_value[OF i_not_in_dir[OF assms] i_not_hr_attr Inr]
  have ge: "py_ge v (PInt n) = Inl TypeError" for n
    by (auto simp: py_ge_def)
  show ?thesis
  proof (cases "getattr_c c ''datasets''")
    case (Inl e)
    from getattr_c_delegated_error[OF datasets_not_in_dir datasets_not_hr_attr Inl]
    have "e \<noteq> StopIteration" by auto
    with Inl Inr assms show ?thesis
      by (simp add: mrr_next_def self_i_def self_datasets_def)
  next
    case ds: (Inr ds)
    show ?thesis
    proof (cases "py_len ds")
      case (Inl e)
      then have "e = TypeError"
        by (auto simp: py_len_def split: pyval.splits)
      with Inl ds Inr assms show ?thesis
        by (simp add: mrr_next_def self_i_def self_datasets_def)
    next
      case n: (Inr n)
      with ds Inr assms ge show ?thesis
        by (simp add: mrr_next_def self_i_def self_datasets_def)
    qed
  qed
qed

lemma init_fresh: "init kd hr lr m d = Inr c \<Longrightarrow> inst_i c = None"
  by (auto simp: init_def split: if_splits)

text \<open>
  C8. On a composite as \<open>__init__\<close> leaves it, whatever the two handlers are, the first
  \<open>__next__\<close> yields no dataset: \<open>_i\<close> was never set, reading it goes through the
  attribute delegation, which gives no integer, and the call ends in an exception that
  is not StopIteration, the instance unchanged.
\<close>

theorem fresh_composite_next_raises:
  "init kd hr lr m d = Inr c \<Longrightarrow>
     (\<exists>e. mrr_next c = (Inl e, c) \<and> e \<noteq> StopIteration)"
  using mrr_next_fresh init_fresh by blast

theorem fresh_composite_next_raises_witness:
  "init example_world example_hr example_lr None [] = Inr example_mrr \<and>
   mrr_next example_mrr = (Inl TypeError, example_mrr)"
proof -
  have i: "init example_world example_hr example_lr None [] = Inr example_mrr"
    by (simp add: init_def example_mrr_def example_hr_def example_lr_def example_world_def)
  have "mrr_next example_mrr = (Inl TypeError, example_mrr)"
    using fresh_composite_next_raises[OF i]
    by (simp add: mrr_next_def self_i_def self_datasets_def getattr_c_def dir_self_def
        class_dir_def HR_ATTRS_def example_mrr_def example_hr_def example_lr_def
        example_world_def py_list_set_def py_len_def py_ge_def)
  with i show ?thesis by simp
qed

text \<open>
  Once \<open>_i\<close> holds an integer the method does what the iteration needs: it yields the
  dataset at that position and moves on, and at the end it raises StopIteration and
  starts over. What is missing is the first assignment.
\<close>

lemma mrr_next_initialised:
  assumes "inst_i c = Some (PInt k)" and "getattr_c c ''datasets'' = Inr (PList ds)"
  shows "mrr_next c =
     (if int (length ds) \<le> k then (Inl StopIteration, c\<lparr>inst_i := Some (PInt 0)\<rparr>)
      else if 0 \<le> k then (Inr (ds ! nat k), c\<lparr>inst_i := Some (PInt (k + 1))\<rparr>)
      else if 0 \<le> k + int (length ds)
        then (Inr (ds ! nat (k + int (length ds))), c\<lparr>inst_i := Some (PInt (k + 1))\<rparr>)
      else (Inl IndexError, c))"
  using assms
  by (simp add: mrr_next_def self_i_def self_datasets_def py_len_def py_ge_def py_getitem_def
      py_add_def Let_def)

section \<open>Properties of the reads\<close>

text \<open>
  C9. A dataset name that is no time\_index, meta, coordinates or SAM name and that
  neither handler lists among its resource datasets takes no branch of \<open>__getitem__\<close>:
  nothing is returned, the read ends in the unbound-local error of \<open>return out\<close>.
\<close>

theorem getitem_unknown_dataset_unbound_local:
  assumes "\<not> prefix ''time_index'' (path_tail ds)"
    and "\<not> prefix ''meta'' (path_tail ds)"
    and "\<not> prefix ''coordinates'' (path_tail ds)"
    and "\<not> sublist ''SAM'' (path_tail ds)"
    and "path_tail ds \<notin> set (resource_datasets (hr_res c))"
    and "path_tail ds \<notin> set (resource_datasets (lr_res c))"
  shows "getitem c ds ds_slice = Inl (UnboundLocalError ''out'')"
  using assms by (simp add: getitem_def)

theorem getitem_unknown_dataset_unbound_local_witness:
  "\<not> prefix ''time_index'' (path_tail ''humidity_2m'') \<and>
   \<not> prefix ''meta'' (path_tail ''humidity_2m'') \<and>
   \<not> prefix ''coordinates'' (path_tail ''humidity_2m'') \<and>
   \<not> sublist ''SAM'' (path_tail ''humidity_2m'') \<and>
   path_tail ''humidity_2m'' \<notin> set (resource_datasets (hr_res example_mrr)) \<and>
   path_tail ''humidity_2m'' \<notin> set (resource_datasets (lr_res example_mrr)) \<and>
   getitem example_mrr ''humidity_2m'' [SSlice None None None, SInt 0]
     = Inl (UnboundLocalError ''out'')"
proof -
  have h: "\<not> prefix ''time_index'' (path_tail ''humidity_2m'')"
    "\<not> prefix ''meta'' (path_tail ''humidity_2m'')"
    "\<not> prefix ''coordinates'' (path_tail ''humidity_2m'')"
    "\<not> sublist ''SAM'' (path_tail ''humidity_2m'')"
    "path_tail ''humidity_2m'' \<notin> set (resource_datasets (hr_res example_mrr))"
    "path_tail ''humidity_2m'' \<notin> set (resource_datasets (lr_res example_mrr))"
    by (simp_all add: path_tail_def sublist_code(3) example_mrr_def example_hr_def example_lr_def)
  from getitem_unknown_dataset_unbound_local[OF h] h show ?thesis by blast
qed

lemma sam_not_in_dir: "''get_SAM_df'' \<notin> set (dir_self c)"
  by (simp add: dir_self_def class_dir_def split: option.splits)

lemma sam_not_hr_attr: "''get_SAM_df'' \<notin> set HR_ATTRS"
  by (simp add: HR_ATTRS_def)

lemma getitem_SAM_branch:
  assumes "\<not> prefix ''time_index'' (path_tail ds)"
    and "\<not> prefix ''meta'' (path_tail ds)"
    and "\<not> prefix ''coordinates'' (path_tail ds)"
    and "sublist ''SAM'' (path_tail ds)"
  shows "getitem c ds ds_slice =
     (case ds_slice of
        [] \<Rightarrow> Inl IndexError
      | site # rest \<Rightarrow>
         (case site of
            SInt n \<Rightarrow>
              (case getattr_c c ''get_SAM_df'' of
                 Inl e \<Rightarrow> Inl e
               | Inr f \<Rightarrow> map_sum id Obj (py_call c f (PInt n)))
          | _ \<Rightarrow> Inl (ResourceRuntimeError
                       ''Can only extract SAM DataFrame for a single site'')))"
  using assms by (simp add: getitem_def)

text \<open>
  C6, as the code has it. The SAM branch comes after the three prefix tests, so it is
  for a name that contains SAM and does not start with time\_index, meta or
  coordinates. There, a first selector that is not a single integer raises the
  resource runtime error, and a read that returns had a single integer.
\<close>

theorem getitem_SAM_needs_single_integer_site:
  assumes "\<not> prefix ''time_index'' (path_tail ds)"
    and "\<not> prefix ''meta'' (path_tail ds)"
    and "\<not> prefix ''coordinates'' (path_tail ds)"
    and "sublist ''SAM'' (path_tail ds)"
  shows "(\<forall>site rest. ds_slice = site # rest \<and> (\<nexists>n. site = SInt n) \<longrightarrow>
            getitem c ds ds_slice =
              Inl (ResourceRuntimeError ''Can only extract SAM DataFrame for a single site'')) \<and>
         (\<forall>out. getitem c ds ds_slice = Inr out \<longrightarrow> (\<exists>n rest. ds_slice = SInt n # rest))"
  unfolding getitem_SAM_branch[OF assms]
  by (auto split: list.splits selector.splits)

theorem getitem_SAM_needs_single_integer_site_witness:
  "\<not> prefix ''time_index'' (path_tail ''SAM'') \<and>
   \<not> prefix ''meta'' (path_tail ''SAM'') \<and>
   \<not> prefix ''coordinates'' (path_tail ''SAM'') \<and>
   sublist ''SAM'' (path_tail ''SAM'') \<and>
   getitem example_mrr ''SAM'' [SSlice (Some 0) (Some 2) None] =
     Inl (ResourceRuntimeError ''Can only extract SAM DataFrame for a single site'') \<and>
   getitem example_mrr ''SAM'' [SList [0, 1]] =
     Inl (ResourceRuntimeError ''Can only extract SAM DataFrame for a single site'')"
proof -
  have h: "\<not> prefix ''time_index'' (path_tail ''SAM'')"
    "\<not> prefix ''meta'' (path_tail ''SAM'')"
    "\<not> prefix ''coordinates'' (path_tail ''SAM'')"
    "sublist ''SAM'' (path_tail ''SAM'')"
    by (simp_all add: path_tail_def)
  from getitem_SAM_needs_single_integer_site[OF h, of "[SSlice (Some 0) (Some 2) None]" example_mrr]
       getitem_SAM_needs_single_integer_site[OF h, of "[SList [0, 1]]" example_mrr]
       h
  show ?thesis by simp
qed

text \<open>
  The claim as the spec words it fails for a name that contains SAM behind one of the
  three prefixes: it is served as meta data, whatever the selector.
\<close>

theorem getitem_SAM_name_served_as_meta_counterexample:
  "sublist ''SAM'' (path_tail ''meta_SAM'') \<and>
   getitem example_mrr ''meta_SAM'' [SSlice None None None] = Inr (Obj (PArr ''hr_meta''))"
  by (simp add: getitem_def path_tail_def sublist_code(3) example_mrr_def example_hr_def)

text \<open>
  With a single integer the SAM branch calls \<open>self.get_SAM_df\<close>, which the class does
  not define: the name goes through the attribute delegation, which hands out no
  callable, so no SAM read returns through the composite.
\<close>

lemma getitem_SAM_never_returns:
  assumes "\<not> prefix ''time_index'' (path_tail ds)"
    and "\<not> prefix ''meta'' (path_tail ds)"
    and "\<not> prefix ''coordinates'' (path_tail ds)"
    and "sublist ''SAM'' (path_tail ds)"
  shows "\<exists>e. getitem c ds ds_slice = Inl e"
proof -
  have "\<exists>e. (case getattr_c c ''get_SAM_df'' of
                 Inl e \<Rightarrow> Inl e
               | Inr f \<Rightarrow> map_sum id Obj (py_call c f (PInt n))) = Inl e" for n
  proof (cases "getattr_c c ''get_SAM_df''")
    case (Inl e)
    then show ?thesis by simp
  next
    case (Inr f)
    from getattr_c_delegated_value[OF sam_not_in_dir sam_not_hr_attr Inr]
    have "py_call c f (PInt n) = Inl TypeError"
      by (auto simp: py_call_def)
    with Inr show ?thesis by simp
  qed
  then show ?thesis
    unfolding getitem_SAM_branch[OF assms]
    by (auto split: list.splits selector.splits)
qed

section \<open>Properties of the temporal interpolation\<close>

lemma length_interp_from [simp]: "length (interp_from p xs) = length xs"
  by (induction p xs rule: interp_from.induct) simp_all

lemma length_ffill_from [simp]: "length (ffill_from p xs) = length xs"
  by (induction p xs rule: ffill_from.induct) simp_all

lemma length_fill_chain [simp]:
  "length (bfill (ffill (interpolate_linear xs))) = length xs"
  by (simp add: bfill_def ffill_def interpolate_linear_def)









subsection \<open>Linear by position between two present values\<close>





lemma length_reindex_col [simp]: "length (reindex_col old new col) = length new"
  by (simp add: reindex_col_def)





lemma map_ds_slice_maps_sites:
  assumes "map_ds_slice c ds_slice = Inr sl"
  shows "\<exists>t s s'. (ds_slice = [t, s] \<or> ds_slice = [t] \<and> s = SSlice None None None) \<and>
           np_getitem (nn_map c) s = Inr s' \<and> sl = [t, s']"
proof (cases ds_slice)
  case Nil
  with assms show ?thesis by (simp add: map_ds_slice_def)
next
  case (Cons t r)
  show ?thesis
  proof (cases r)
    case Nil
    with Cons assms show ?thesis
      by (auto simp: map_ds_slice_def split: sum.splits)
  next
    case r: (Cons s r')
    show ?thesis
    proof (cases r')
      case Nil
      with Cons r assms show ?thesis
        by (auto simp: map_ds_slice_def split: sum.splits)
    next
      case (Cons u r'')
      with \<open>ds_slice = t # r\<close> r assms show ?thesis
        by (simp add: map_ds_slice_def)
    qed
  qed
qed


subsection \<open>What the site mapping gives\<close>




subsection \<open>A site with no present sample\<close>






subsection \<open>When the table cannot be built or reindexed\<close>



subsection \<open>One site's series through the pipeline\<close>





section \<open>Properties of the weighted circular mean\<close>

text \<open>
  C4. With weights whose shape differs from the data's, \<open>weighted_circular_mean\<close>
  returns no value, but the exception is the mismatch error naming both shapes only
  when the transformation before it goes through: with normalisation on,
  exponentiation off and integer weights, the in-place division raises first.
\<close>

theorem weighted_circular_mean_shape_mismatch:
  assumes "shape d \<noteq> shape w"
  shows "weighted_circular_mean ops d (Some w) degrees axis norm_weights exponential_weights =
     (if norm_weights \<and> \<not> exponential_weights \<and> dtype w = DInt
      then Inl CastingTypeError
      else Inl (RuntimeError_shape (shape w) (shape d)))"
  using assms
  by (cases "dtype w")
     (simp_all add: weighted_circular_mean_def np_idiv_sum_def np_exp_def Let_def)

theorem weighted_circular_mean_shape_mismatch_witness:
  "shape \<lparr>shape = [4, 2], dtype = DFloat, vals = ()\<rparr>
     \<noteq> shape \<lparr>shape = [4], dtype = DInt, vals = ()\<rparr> \<and>
   weighted_circular_mean shape_only \<lparr>shape = [4, 2], dtype = DFloat, vals = ()\<rparr>
     (Some \<lparr>shape = [4], dtype = DInt, vals = ()\<rparr>) True 0 True False
     = Inl CastingTypeError \<and>
   weighted_circular_mean shape_only \<lparr>shape = [4, 2], dtype = DFloat, vals = ()\<rparr>
     (Some \<lparr>shape = [4], dtype = DInt, vals = ()\<rparr>) True 0 True True
     = Inl (RuntimeError_shape [4] [4, 2])"
  using weighted_circular_mean_shape_mismatch
          [of "\<lparr>shape = [4, 2], dtype = DFloat, vals = ()\<rparr>"
              "\<lparr>shape = [4], dtype = DInt, vals = ()\<rparr>" shape_only True 0 True False]
        weighted_circular_mean_shape_mismatch
          [of "\<lparr>shape = [4, 2], dtype = DFloat, vals = ()\<rparr>"
              "\<lparr>shape = [4], dtype = DInt, vals = ()\<rparr>" shape_only True 0 True True]
  by simp

text \<open>
  C7. For a one-dimensional array of directions in degrees, reduced along its only
  axis, with no weights or with weights of the data's shape, \<open>weighted_circular_mean\<close>
  returns no value: the mean is a numpy scalar, and \<open>mean[mask] += 360\<close> raises
  TypeError on it.
\<close>

theorem weighted_circular_mean_one_dimensional_raises:
  assumes "shape d = [n]"
    and "weights = None \<or> (\<exists>w. weights = Some w \<and> shape w = shape d)"
    and "axis = 0 \<or> axis = - 1"
  shows "weighted_circular_mean ops d weights True axis norm_weights exponential_weights
     = Inl TypeError"
  using assms
  by (auto simp: weighted_circular_mean_def circular_mean_def wrap_index_def Let_def)

theorem weighted_circular_mean_one_dimensional_raises_witness:
  "shape \<lparr>shape = [4], dtype = DFloat, vals = ()\<rparr> = [4] \<and>
   weighted_circular_mean shape_only \<lparr>shape = [4], dtype = DFloat, vals = ()\<rparr> None
     True 0 True True = Inl TypeError \<and>
   weighted_circular_mean shape_only \<lparr>shape = [4], dtype = DFloat, vals = ()\<rparr>
     (Some \<lparr>shape = [4], dtype = DFloat, vals = ()\<rparr>) True 0 True True = Inl TypeError"
  using weighted_circular_mean_one_dimensional_raises
          [of "\<lparr>shape = [4], dtype = DFloat, vals = ()\<rparr>" 4 None 0 shape_only True True]
        weighted_circular_mean_one_dimensional_raises
          [of "\<lparr>shape = [4], dtype = DFloat, vals = ()\<rparr>" 4
              "Some \<lparr>shape = [4], dtype = DFloat, vals = ()\<rparr>" 0 shape_only True True]
  by simp

text \<open>
  With a (time, sites) table reduced along the time axis the function returns one
  value per site.
\<close>

lemma weighted_circular_mean_sites:
  assumes "shape d = [n, m]"
    and "weights = None \<or> (\<exists>w. weights = Some w \<and> shape w = shape d)"
  shows "\<exists>r. weighted_circular_mean ops d weights degrees 0 norm_weights exponential_weights
     = Inr r \<and> shape r = [m]"
  using assms
  by (auto simp: weighted_circular_mean_def circular_mean_def wrap_index_def Let_def)

section \<open>Properties of the grouped statistics\<close>

lemma list_setitem_empty: "list_setitem [] key v \<noteq> Inr xs"
  by (cases key) (simp_all add: list_setitem_def wrap_index_def)

lemma weighted_loop_first_group_fails:
  "gs \<noteq> [] \<Longrightarrow> \<exists>e. weighted_loop func weights kw [] gs = Inl e"
proof (cases gs)
  case Nil
  assume "gs \<noteq> []"
  with Nil show ?thesis by simp
next
  case (Cons g rest)
  obtain grp_name res_grp where g: "g = (grp_name, res_grp)" by (cases g)
  have "\<exists>e. weighted_loop func weights kw [] ((grp_name, res_grp) # rest) = Inl e"
    by (auto simp: list_setitem_empty split: sum.splits option.splits)
  with Cons g show ?thesis by simp
qed

lemma compute_weighted_stats_grouped_fails:
  assumes "gs \<noteq> []" and "names \<noteq> []"
  shows "\<exists>e. compute_weighted_stats func (Grouped gs) (Some names) kw = Inl e"
proof -
  from weighted_loop_first_group_fails[OF assms(1)]
  obtain e where "weighted_loop func (kw_weights kw) kw [] gs = Inl e" by blast
  with assms(2) show ?thesis
    by (simp add: compute_weighted_stats_def)
qed

lemma stats_loop_weighted_fails:
  assumes "(name, st) \<in> set statistics" and "is_weighted name"
    and "gs \<noteq> []" and "names \<noteq> []"
  shows "\<exists>e. stats_loop (Grouped gs) (Some names) statistics = Inl e"
  using assms(1)
proof (induction statistics)
  case Nil
  then show ?case by simp
next
  case (Cons s rest)
  obtain n f where s: "s = (n, f)" by (cases s)
  show ?case
  proof (cases "s = (name, st)")
    case True
    from compute_weighted_stats_grouped_fails[OF assms(3,4)]
    obtain e where "compute_weighted_stats (st_func st) (Grouped gs) (Some names) (st_kwargs st) = Inl e"
      by blast
    with True assms(2) show ?thesis by simp
  next
    case False
    with Cons.prems have "(name, st) \<in> set rest" by simp
    from Cons.IH[OF this] obtain e where "stats_loop (Grouped gs) (Some names) rest = Inl e"
      by blast
    then show ?thesis
      by (simp add: s split: sum.splits)
  qed
qed

lemma create_names_no_groups: "create_names [] stats = Inl ValueError"
  by (simp add: create_names_def format_grp_names_def key_rows_def format_row_def)

lemma create_names_length:
  "create_names groups stats = Inr names \<Longrightarrow> length names = length stats"
  by (auto simp: create_names_def split: sum.splits)

text \<open>
  C1. With month and/or diurnal grouping and a statistic whose name begins with the
  weighted prefix among the requested ones, \<open>_compute_stats\<close> produces no table,
  whatever the data, the function and the kwargs: the weights table of the kwargs was
  never grouped and has no \<open>get_group\<close>, and the per-group result is stored into an
  empty list at the group's name.
\<close>

theorem compute_stats_grouped_weighted_fails:
  assumes "month \<or> diurnal"
    and "(name, st) \<in> set statistics" and "is_weighted name"
  shows "\<exists>e. compute_stats res_data statistics diurnal month weights = Inl e"
proof -
  let ?groupby = "(if month then [map ts_month (f_index res_data)] else [])
                  @ (if diurnal then [map ts_hour (f_index res_data)] else [])"
  let ?grouped = "df_groupby res_data ?groupby"
  have g: "?groupby \<noteq> []" using assms(1) by auto
  show ?thesis
  proof (cases weights)
    case (Some w)
    with g show ?thesis by (simp add: compute_stats_def Let_def)
  next
    case None
    show ?thesis
    proof (cases "create_names (map fst ?grouped) (map fst statistics)")
      case (Inl e)
      with None g show ?thesis by (simp add: compute_stats_def Let_def)
    next
      case (Inr names)
      from create_names_length[OF Inr] assms(2) have n: "names \<noteq> []" by auto
      have "map fst ?grouped \<noteq> []"
        using Inr create_names_no_groups[of "map fst statistics"] by auto
      then have "?grouped \<noteq> []" by simp
      from stats_loop_weighted_fails[OF assms(2,3) this n]
      obtain e where "stats_loop (Grouped ?grouped) (Some names) statistics = Inl e" by blast
      with None Inr g show ?thesis by (simp add: compute_stats_def Let_def)
    qed
  qed
qed

theorem compute_stats_grouped_weighted_fails_witness:
  "(True \<or> False) \<and> is_weighted ''weighted_mean'' \<and>
   compute_stats three_stamps
     [(''weighted_mean'', \<lparr>st_func = first_row,
          st_kwargs = \<lparr>kw_weights = Some (Plain three_stamps), kw_other = ()\<rparr>\<rparr>)]
     False True None = Inl (AttributeError ''get_group'') \<and>
   compute_stats three_stamps
     [(''weighted_mean'', \<lparr>st_func = first_row,
          st_kwargs = \<lparr>kw_weights = None, kw_other = ()\<rparr>\<rparr>)]
     False True None = Inl IndexError"
proof -
  have w: "is_weighted ''weighted_mean''"
    by (simp add: is_weighted_def lower_char_def)
  have "\<exists>e. compute_stats three_stamps
     [(''weighted_mean'', \<lparr>st_func = first_row,
          st_kwargs = \<lparr>kw_weights = Some (Plain three_stamps), kw_other = ()\<rparr>\<rparr>)]
     False True None = Inl e"
    by (rule compute_stats_grouped_weighted_fails[OF _ _ w]) simp_all
  moreover have "compute_stats three_stamps
     [(''weighted_mean'', \<lparr>st_func = first_row,
          st_kwargs = \<lparr>kw_weights = Some (Plain three_stamps), kw_other = ()\<rparr>\<rparr>)]
     False True None = Inl (AttributeError ''get_group'')"
    by code_simp
  moreover have "compute_stats three_stamps
     [(''weighted_mean'', \<lparr>st_func = first_row,
          st_kwargs = \<lparr>kw_weights = None, kw_other = ()\<rparr>\<rparr>)]
     False True None = Inl IndexError"
    by code_simp
  ultimately show ?thesis using w by simp
qed

text \<open>
  The other half of C1: a statistic whose name does not begin with the weighted prefix
  is reduced group by group, one column per group under that statistic's names.
\<close>

lemma stats_loop_plain_statistic:
  assumes "\<not> is_weighted name"
    and "map_exn (\<lambda>(g, df). st_func st (Plain df) (st_kwargs st)) gs = Inr vs"
    and "map_of names name = Some columns" and "length columns = length vs"
  shows "stats_loop (Grouped gs) (Some names) [(name, st)] = Inr [zip columns vs]"
  using assms by (simp add: aggregate_stat_def)

lemma compute_stats_monthly_first_row:
  "compute_stats three_stamps
     [(''mean'', \<lparr>st_func = first_row, st_kwargs = \<lparr>kw_weights = None, kw_other = ()\<rparr>\<rparr>)]
     False True None
   = Inr [(''Jan_mean'', [Some 90, Some 0]), (''Feb_mean'', [Some 270, Some 20])]"
  by code_simp

end
